theory Spec2Isabelle
  imports Complex_Main
begin

section \<open>Low-rank layer decompositions (decompositions.py)\<close>

text \<open>
  The module holds four functions that rebuild a trained layer as a chain of smaller
  layers (\<open>cp_decomposition_conv_layer\<close>, \<open>tucker_decomposition_conv_layer\<close>,
  \<open>svd_decomposition_dense_layer\<close>) and two rank estimators
  (\<open>estimate_ranks_tucker\<close>, \<open>estimate_ranks_svd\<close>). The numeric work is done by
  tensorly, VBMF and torch; those calls are parameters of the model (record
  \<open>library\<close>), each returning either an exception or its result. Array entries are
  real numbers: the rounding of \<open>np.float32\<close> is not modelled. The \<open>print\<close> calls
  write to standard output only and are left out.
\<close>

subsection \<open>Arrays\<close>

text \<open>An array is its shape and its entries by index (numpy's and torch's dense arrays).\<close>

record vec =
  len :: nat
  at1 :: "nat \<Rightarrow> real"

record matrix =
  nrows :: nat
  ncols :: nat
  at2 :: "nat \<Rightarrow> nat \<Rightarrow> real"

record tensor4 =
  shape4 :: "nat \<times> nat \<times> nat \<times> nat"
  at4 :: "nat \<Rightarrow> nat \<Rightarrow> nat \<Rightarrow> nat \<Rightarrow> real"

datatype tensor = Vec vec | Mat matrix | Ten4 tensor4

text \<open>\<open>max(X.shape)\<close> of a four-dimensional array.\<close>

definition max_shape :: "tensor4 \<Rightarrow> nat" where
  "max_shape X = (case shape4 X of (a, b, c, d) \<Rightarrow> max (max a b) (max c d))"

text \<open>\<open>M.transpose(1, 0)\<close> and \<open>M.t()\<close>.\<close>

definition transpose_m :: "matrix \<Rightarrow> matrix" where
  "transpose_m M = \<lparr>nrows = ncols M, ncols = nrows M, at2 = (\<lambda>i j. at2 M j i)\<rparr>"

text \<open>The slices \<open>M[:, :k]\<close> and \<open>v[:k]\<close>: a bound beyond the end is clipped.\<close>

definition take_cols :: "nat \<Rightarrow> matrix \<Rightarrow> matrix" where
  "take_cols k M = M\<lparr>ncols := min k (ncols M)\<rparr>"

definition take_vec :: "nat \<Rightarrow> vec \<Rightarrow> vec" where
  "take_vec k v = v\<lparr>len := min k (len v)\<rparr>"

text \<open>\<open>torch.diag\<close> of a one-dimensional tensor.\<close>

definition diag :: "vec \<Rightarrow> matrix" where
  "diag v = \<lparr>nrows = len v, ncols = len v, at2 = (\<lambda>i j. if i = j then at1 v i else 0)\<rparr>"

datatype error =
  AttributeError | ValueError | RuntimeError | TypeError | LibraryError string

text \<open>\<open>torch.mm\<close>: the inner dimensions must agree, otherwise torch raises RuntimeError.\<close>

definition mm :: "matrix \<Rightarrow> matrix \<Rightarrow> error + matrix" where
  "mm A B =
     (if ncols A = nrows B
      then Inr \<lparr>nrows = nrows A, ncols = ncols B,
                at2 = (\<lambda>i j. \<Sum>k<ncols A. at2 A i k * at2 B k j)\<rparr>
      else Inl RuntimeError)"

text \<open>
  The three uses of \<open>np.expand_dims\<close> on a matrix of shape \<open>(a, b)\<close>:
  \<open>axis = 1\<close> then \<open>axis = -1\<close> gives \<open>(a, 1, b, 1)\<close>; \<open>axis = 1\<close> twice gives
  \<open>(a, 1, 1, b)\<close>; \<open>axis = -1\<close> twice gives \<open>(a, b, 1, 1)\<close>.
\<close>

definition expand_dims_1_last :: "matrix \<Rightarrow> tensor4" where
  "expand_dims_1_last M =
     \<lparr>shape4 = (nrows M, 1, ncols M, 1), at4 = (\<lambda>a b c d. at2 M a c)\<rparr>"

definition expand_dims_1_1 :: "matrix \<Rightarrow> tensor4" where
  "expand_dims_1_1 M =
     \<lparr>shape4 = (nrows M, 1, 1, ncols M), at4 = (\<lambda>a b c d. at2 M a d)\<rparr>"

definition expand_dims_last_last :: "matrix \<Rightarrow> tensor4" where
  "expand_dims_last_last M =
     \<lparr>shape4 = (nrows M, ncols M, 1, 1), at4 = (\<lambda>a b c d. at2 M a b)\<rparr>"

subsection \<open>The libraries\<close>

text \<open>
  The decomposition routines are not functions of their arguments alone: \<open>parafac\<close>
  and \<open>partial_tucker\<close> can return different factors on equal arguments (random
  initialisation; factors that are determined only up to sign). A value of \<open>library\<close>
  stands for how the libraries behave during one call of a function of this module, so
  that two calls are compared under two libraries. \<open>parafac\<close> is also given, and
  returns, the state of the source of randomness that its initialisation draws on, a
  source outside the program. The layer constructors of torch fill a new parameter from
  torch's global generator (\<open>reset_parameters\<close>). \<open>EVBMF\<close> returns four values, the
  second a diagonal matrix.
\<close>

type_synonym rng = nat
type_synonym post = "(string \<times> real) list"

datatype init = Init_svd | Init_random

record library =
  parafac :: "tensor4 \<Rightarrow> nat \<Rightarrow> init \<Rightarrow> rng \<Rightarrow> (error + matrix list) \<times> rng"
  partial_tucker ::
    "tensor4 \<Rightarrow> nat list \<Rightarrow> nat list \<Rightarrow> init \<Rightarrow> error + tensor4 \<times> matrix list"
  unfold :: "tensor \<Rightarrow> nat \<Rightarrow> matrix"
  EVBMF :: "matrix \<Rightarrow> error + matrix \<times> matrix \<times> matrix \<times> post"
  svd :: "matrix \<Rightarrow> error + matrix \<times> vec \<times> matrix"
  reset_parameters :: "nat list \<Rightarrow> rng \<Rightarrow> (nat list \<Rightarrow> real) \<times> rng"

subsection \<open>Layers and the store\<close>

text \<open>
  A parameter's \<open>.data\<close> is a tensor over a storage; two tensors can share one. The
  store maps storage identifiers to contents, and a layer holds the identifiers of its
  weight and of its bias (\<open>None\<close> when the layer has no bias).
\<close>

type_synonym sid = nat

record module_base =
  weight :: sid
  bias :: "sid option"

record conv2d = module_base +
  in_channels :: nat
  out_channels :: nat
  kernel_size :: "nat \<times> nat"
  stride :: "nat \<times> nat"
  padding :: "nat \<times> nat"
  dilation :: "nat \<times> nat"
  groups :: nat

record linear = module_base +
  in_features :: nat
  out_features :: nat

record world =
  store :: "sid \<rightharpoonup> tensor"
  next_sid :: sid
  entropy :: rng
  torch_rng :: rng

subsection \<open>Computations that may raise\<close>

type_synonym 'a M = "world \<Rightarrow> error + 'a \<times> world"

definition ret :: "'a \<Rightarrow> 'a M" where
  "ret x = (\<lambda>w. Inr (x, w))"

definition raise :: "error \<Rightarrow> 'a M" where
  "raise e = (\<lambda>w. Inl e)"

definition bind :: "'a M \<Rightarrow> ('a \<Rightarrow> 'b M) \<Rightarrow> 'b M" where
  "bind m f = (\<lambda>w. case m w of Inl e \<Rightarrow> Inl e | Inr (x, w') \<Rightarrow> f x w')"

text \<open>The result of a library call that touches no state.\<close>

definition lift :: "error + 'a \<Rightarrow> 'a M" where
  "lift r = (case r of Inl e \<Rightarrow> raise e | Inr x \<Rightarrow> ret x)"

text \<open>A new storage holding \<open>t\<close>.\<close>

definition alloc :: "tensor \<Rightarrow> sid M" where
  "alloc t = (\<lambda>w. Inr (next_sid w,
     w\<lparr>store := (store w)(next_sid w \<mapsto> t), next_sid := Suc (next_sid w)\<rparr>))"

text \<open>The initial entries of a new parameter of the given shape.\<close>

definition draw :: "library \<Rightarrow> nat list \<Rightarrow> (nat list \<Rightarrow> real) M" where
  "draw lib shp = (\<lambda>w. case reset_parameters lib shp (torch_rng w) of
     (f, g) \<Rightarrow> Inr (f, w\<lparr>torch_rng := g\<rparr>))"

text \<open>\<open>parafac(X, rank = rank, init = i)\<close>, on the source of randomness outside the
  program.\<close>

definition call_parafac :: "library \<Rightarrow> tensor4 \<Rightarrow> nat \<Rightarrow> init \<Rightarrow> matrix list M" where
  "call_parafac lib X rank i = (\<lambda>w. case parafac lib X rank i (entropy w) of
     (Inl e, g) \<Rightarrow> Inl e
   | (Inr fs, g) \<Rightarrow> Inr (fs, w\<lparr>entropy := g\<rparr>))"

text \<open>\<open>layer.weight.data\<close> of a convolution (four-dimensional) and of a linear layer.\<close>

definition weight_data4 :: "('a module_base_scheme) \<Rightarrow> tensor4 M" where
  "weight_data4 layer = (\<lambda>w. case store w (weight layer) of
     Some (Ten4 X) \<Rightarrow> Inr (X, w) | _ \<Rightarrow> Inl TypeError)"

definition weight_data2 :: "('a module_base_scheme) \<Rightarrow> matrix M" where
  "weight_data2 layer = (\<lambda>w. case store w (weight layer) of
     Some (Mat X) \<Rightarrow> Inr (X, w) | _ \<Rightarrow> Inl TypeError)"

text \<open>\<open>layer.bias.data\<close>: \<open>layer.bias\<close> is \<open>None\<close> for a layer without bias, and
  \<open>None\<close> has no attribute \<open>data\<close>.\<close>

definition bias_data :: "('a module_base_scheme) \<Rightarrow> sid M" where
  "bias_data layer = (case bias layer of None \<Rightarrow> raise AttributeError | Some b \<Rightarrow> ret b)"

text \<open>\<open>l.weight.data = t\<close> for a fresh tensor \<open>t\<close>, and \<open>l.bias.data = d\<close> for the
  data \<open>d\<close> of another parameter, whose storage \<open>l.bias\<close> then shares.\<close>

definition set_weight_data ::
  "('a module_base_scheme) \<Rightarrow> tensor \<Rightarrow> ('a module_base_scheme) M" where
  "set_weight_data l t = bind (alloc t) (\<lambda>a. ret (l\<lparr>weight := a\<rparr>))"

definition set_bias_data ::
  "('a module_base_scheme) \<Rightarrow> sid \<Rightarrow> ('a module_base_scheme) M" where
  "set_bias_data l d =
     (case bias l of None \<Rightarrow> raise AttributeError | Some _ \<Rightarrow> ret (l\<lparr>bias := Some d\<rparr>))"

text \<open>torch's \<open>_pair\<close>: an integer argument stands for the pair of it with itself.\<close>

definition pair :: "nat \<Rightarrow> nat \<times> nat" where
  "pair n = (n, n)"

text \<open>
  \<open>torch.nn.Conv2d(in_channels, out_channels, kernel_size, stride, padding, dilation,
  groups, bias)\<close>: the constructor rejects a number of groups that is not positive or
  does not divide both channel counts, and creates a weight of shape
  \<open>(out_channels, in_channels // groups, kh, kw)\<close> and, with \<open>bias = True\<close>, a bias
  of length \<open>out_channels\<close>.
\<close>

definition Conv2d ::
  "library \<Rightarrow> nat \<Rightarrow> nat \<Rightarrow> nat \<times> nat \<Rightarrow> nat \<times> nat \<Rightarrow> nat \<times> nat \<Rightarrow> nat \<times> nat \<Rightarrow> nat \<Rightarrow>
   bool \<Rightarrow> conv2d M" where
  "Conv2d lib ic oc ks st pad dil g b =
     (if g = 0 \<or> ic mod g \<noteq> 0 \<or> oc mod g \<noteq> 0 then raise ValueError
      else
        bind (draw lib [oc, ic div g, fst ks, snd ks]) (\<lambda>f.
        bind (alloc (Ten4 \<lparr>shape4 = (oc, ic div g, fst ks, snd ks),
                            at4 = (\<lambda>a b c d. f [a, b, c, d])\<rparr>)) (\<lambda>wt.
        bind (if b
              then bind (draw lib [oc]) (\<lambda>f.
                   bind (alloc (Vec \<lparr>len = oc, at1 = (\<lambda>i. f [i])\<rparr>)) (\<lambda>a. ret (Some a)))
              else ret None) (\<lambda>bi.
        ret \<lparr>weight = wt, bias = bi, in_channels = ic, out_channels = oc,
             kernel_size = ks, stride = st, padding = pad, dilation = dil,
             groups = g\<rparr>))))"

text \<open>\<open>nn.Linear(in_features, out_features, bias)\<close>: a weight of shape
  \<open>(out_features, in_features)\<close> and, with \<open>bias = True\<close>, a bias of length
  \<open>out_features\<close>.\<close>

definition Linear :: "library \<Rightarrow> nat \<Rightarrow> nat \<Rightarrow> bool \<Rightarrow> linear M" where
  "Linear lib i oc b =
     bind (draw lib [oc, i]) (\<lambda>f.
     bind (alloc (Mat \<lparr>nrows = oc, ncols = i, at2 = (\<lambda>r c. f [r, c])\<rparr>)) (\<lambda>wt.
     bind (if b
           then bind (draw lib [oc]) (\<lambda>f.
                bind (alloc (Vec \<lparr>len = oc, at1 = (\<lambda>k. f [k])\<rparr>)) (\<lambda>a. ret (Some a)))
           else ret None) (\<lambda>bi.
     ret \<lparr>weight = wt, bias = bi, in_features = i, out_features = oc\<rparr>)))"

text \<open>Unpacking a list into four names raises ValueError unless it has four elements;
  likewise for two.\<close>

definition unpack4 :: "'a list \<Rightarrow> ('a \<times> 'a \<times> 'a \<times> 'a) M" where
  "unpack4 xs = (case xs of [a, b, c, d] \<Rightarrow> ret (a, b, c, d) | _ \<Rightarrow> raise ValueError)"

definition unpack2 :: "'a list \<Rightarrow> ('a \<times> 'a) M" where
  "unpack2 xs = (case xs of [a, b] \<Rightarrow> ret (a, b) | _ \<Rightarrow> raise ValueError)"

subsection \<open>The functions of the module\<close>

definition cp_decomposition_conv_layer :: "library \<Rightarrow> conv2d \<Rightarrow> nat \<Rightarrow> conv2d list M" where
  "cp_decomposition_conv_layer lib layer rank =
     bind (weight_data4 layer) (\<lambda>X.
     bind (call_parafac lib X rank (if 256 \<le> max_shape X then Init_random else Init_svd))
       (\<lambda>factors.
     bind (unpack4 factors) (\<lambda>(last, first, vertical, horizontal).
     bind (Conv2d lib (nrows first) (ncols first) (pair 1) (stride layer) (pair 0)
             (dilation layer) 1 False) (\<lambda>pointwise_s_to_r_layer.
     bind (Conv2d lib (ncols vertical) (ncols vertical) (nrows vertical, 1) (stride layer)
             (fst (padding layer), 0) (dilation layer) (ncols vertical) False)
       (\<lambda>depthwise_vertical_layer.
     bind (Conv2d lib (ncols horizontal) (ncols horizontal) (1, nrows horizontal)
             (stride layer) (0, fst (padding layer)) (dilation layer) (ncols horizontal)
             False) (\<lambda>depthwise_horizontal_layer.
     bind (Conv2d lib (ncols last) (nrows last) (pair 1) (stride layer) (pair 0)
             (dilation layer) 1 True) (\<lambda>pointwise_r_to_t_layer.
     bind (bias_data layer) (\<lambda>d.
     bind (set_bias_data pointwise_r_to_t_layer d) (\<lambda>pointwise_r_to_t_layer.
     bind (set_weight_data depthwise_horizontal_layer
             (Ten4 (expand_dims_1_1 (transpose_m horizontal))))
       (\<lambda>depthwise_horizontal_layer.
     bind (set_weight_data depthwise_vertical_layer
             (Ten4 (expand_dims_1_last (transpose_m vertical))))
       (\<lambda>depthwise_vertical_layer.
     bind (set_weight_data pointwise_s_to_r_layer
             (Ten4 (expand_dims_last_last (transpose_m first))))
       (\<lambda>pointwise_s_to_r_layer.
     bind (set_weight_data pointwise_r_to_t_layer (Ten4 (expand_dims_last_last last)))
       (\<lambda>pointwise_r_to_t_layer.
     ret [pointwise_s_to_r_layer, depthwise_vertical_layer,
          depthwise_horizontal_layer, pointwise_r_to_t_layer])))))))))))))"

definition estimate_ranks_tucker :: "library \<Rightarrow> conv2d \<Rightarrow> nat list M" where
  "estimate_ranks_tucker lib layer =
     bind (weight_data4 layer) (\<lambda>weights.
     bind (ret (unfold lib (Ten4 weights) 0)) (\<lambda>unfold_0.
     bind (ret (unfold lib (Ten4 weights) 1)) (\<lambda>unfold_1.
     bind (lift (EVBMF lib unfold_0)) (\<lambda>(_, diag_0, _, _).
     bind (lift (EVBMF lib unfold_1)) (\<lambda>(_, diag_1, _, _).
     ret [nrows diag_0, ncols diag_1])))))"

definition tucker_decomposition_conv_layer :: "library \<Rightarrow> conv2d \<Rightarrow> conv2d list M" where
  "tucker_decomposition_conv_layer lib layer =
     bind (estimate_ranks_tucker lib layer) (\<lambda>ranks.
     bind (weight_data4 layer) (\<lambda>X.
     bind (lift (partial_tucker lib X [0, 1] ranks Init_svd)) (\<lambda>(core, factors).
     bind (unpack2 factors) (\<lambda>(last, first).
     bind (Conv2d lib (nrows first) (ncols first) (pair 1) (pair 1) (pair 0)
             (dilation layer) 1 False) (\<lambda>first_layer.
     bind (Conv2d lib (fst (snd (shape4 core))) (fst (shape4 core)) (kernel_size layer)
             (stride layer) (padding layer) (dilation layer) 1 False) (\<lambda>core_layer.
     bind (Conv2d lib (ncols last) (nrows last) (pair 1) (pair 1) (pair 0)
             (dilation layer) 1 True) (\<lambda>last_layer.
     bind (bias_data layer) (\<lambda>d.
     bind (set_bias_data last_layer d) (\<lambda>last_layer.
     bind (ret (transpose_m first)) (\<lambda>first.
     bind (set_weight_data first_layer (Ten4 (expand_dims_last_last first)))
       (\<lambda>first_layer.
     bind (set_weight_data last_layer (Ten4 (expand_dims_last_last last)))
       (\<lambda>last_layer.
     bind (set_weight_data core_layer (Ten4 core)) (\<lambda>core_layer.
     ret [first_layer, core_layer, last_layer])))))))))))))"

definition estimate_ranks_svd :: "library \<Rightarrow> linear \<Rightarrow> nat M" where
  "estimate_ranks_svd lib layer =
     bind (weight_data2 layer) (\<lambda>weights.
     bind (lift (EVBMF lib weights)) (\<lambda>(_, diag, _, _).
     ret (nrows diag)))"

definition svd_decomposition_dense_layer :: "library \<Rightarrow> linear \<Rightarrow> linear list M" where
  "svd_decomposition_dense_layer lib layer =
     bind (estimate_ranks_svd lib layer) (\<lambda>rank.
     bind (weight_data2 layer) (\<lambda>X.
     bind (lift (svd lib X)) (\<lambda>(U, S, V).
     bind (ret (take_cols rank U)) (\<lambda>Uk.
     bind (ret (take_vec rank S)) (\<lambda>Sk.
     bind (ret (take_cols rank V)) (\<lambda>Vk.
     bind (Linear lib rank (ncols X) False) (\<lambda>V_layer.
     bind (Linear lib (nrows X) rank True) (\<lambda>U_layer.
     bind (set_weight_data V_layer (Mat (transpose_m Vk))) (\<lambda>V_layer.
     bind (lift (mm Uk (diag Sk))) (\<lambda>US.
     bind (set_weight_data U_layer (Mat US)) (\<lambda>U_layer.
     bind (bias_data layer) (\<lambda>d.
     bind (set_bias_data U_layer d) (\<lambda>U_layer.
     ret [V_layer, U_layer])))))))))))))"

subsection \<open>What a replacement chain is and computes\<close>

text \<open>The construction parameters of a convolution: channels in and out, kernel size,
  stride, padding, dilation, groups, and whether it has a bias.\<close>

type_synonym conv_params =
  "nat \<times> nat \<times> (nat \<times> nat) \<times> (nat \<times> nat) \<times> (nat \<times> nat) \<times> (nat \<times> nat) \<times> nat \<times> bool"

definition hyper :: "conv2d \<Rightarrow> conv_params" where
  "hyper c = (in_channels c, out_channels c, kernel_size c, stride c, padding c,
     dilation c, groups c, bias c \<noteq> None)"

text \<open>The construction parameters of the layers of a returned chain.\<close>

definition returned_hyper :: "conv2d list M \<Rightarrow> world \<Rightarrow> error + conv_params list" where
  "returned_hyper m w =
     (case m w of Inl e \<Rightarrow> Inl e | Inr (seq, w') \<Rightarrow> Inr (map hyper seq))"

text \<open>
  \<open>F.linear(x, W, b)\<close>, the forward pass of \<open>nn.Linear\<close>: \<open>x W\<^sup>T + b\<close>. It reads
  the weight tensor itself, not the declared feature counts; an input whose length is
  not the number of columns of \<open>W\<close> makes torch raise RuntimeError. The bias has one
  entry per output. \<open>nn.Sequential\<close> feeds each layer's output to the next.
\<close>

definition linear_forward :: "world \<Rightarrow> linear \<Rightarrow> vec \<Rightarrow> error + vec" where
  "linear_forward w l x =
     (case store w (weight l) of
        Some (Mat W) \<Rightarrow>
          if len x \<noteq> ncols W then Inl RuntimeError
          else
            (case bias l of
               None \<Rightarrow> Inr \<lparr>len = nrows W, at1 = (\<lambda>i. \<Sum>j<ncols W. at2 W i j * at1 x j)\<rparr>
             | Some b \<Rightarrow>
                 (case store w b of
                    Some (Vec bv) \<Rightarrow>
                      if len bv \<noteq> nrows W then Inl RuntimeError
                      else Inr \<lparr>len = nrows W,
                                at1 = (\<lambda>i. (\<Sum>j<ncols W. at2 W i j * at1 x j) + at1 bv i)\<rparr>
                  | _ \<Rightarrow> Inl TypeError))
      | _ \<Rightarrow> Inl TypeError)"

fun forward :: "world \<Rightarrow> linear list \<Rightarrow> vec \<Rightarrow> error + vec" where
  "forward w [] x = Inr x"
| "forward w (l # ls) x =
     (case linear_forward w l x of Inl e \<Rightarrow> Inl e | Inr y \<Rightarrow> forward w ls y)"

text \<open>
  The rank-\<open>k\<close> truncation \<open>U\<^sub>k \<Sigma>\<^sub>k V\<^sub>k\<^sup>T\<close> of a singular value decomposition
  \<open>(U, S, V)\<close>, entry by entry, and the affine map \<open>x \<mapsto> A x + b\<close>.
\<close>

definition truncated_svd :: "nat \<Rightarrow> matrix \<Rightarrow> vec \<Rightarrow> matrix \<Rightarrow> matrix" where
  "truncated_svd k U S V =
     \<lparr>nrows = nrows U, ncols = nrows V,
      at2 = (\<lambda>i j. \<Sum>l<min k (len S). at2 U i l * at1 S l * at2 V j l)\<rparr>"

definition affine :: "matrix \<Rightarrow> vec \<Rightarrow> vec \<Rightarrow> vec" where
  "affine A b x =
     \<lparr>len = nrows A, at1 = (\<lambda>i. (\<Sum>j<ncols A. at2 A i j * at1 x j) + at1 b i)\<rparr>"

text \<open>
  Rank estimation as the specification words it: unfold the tensor along modes 0 and 1,
  apply EVBMF to each unfolding, return the dimensions of the two diagonal matrices.
\<close>

definition estimate_ranks_two_unfoldings :: "library \<Rightarrow> tensor \<Rightarrow> error + nat list" where
  "estimate_ranks_two_unfoldings lib T =
     (case EVBMF lib (unfold lib T 0) of
        Inl e \<Rightarrow> Inl e
      | Inr (_, diag_0, _, _) \<Rightarrow>
          (case EVBMF lib (unfold lib T 1) of
             Inl e \<Rightarrow> Inl e
           | Inr (_, diag_1, _, _) \<Rightarrow> Inr [nrows diag_0, ncols diag_1]))"

text \<open>
  A world is well formed when the allocator's next identifier lies beyond every storage
  in use; a layer is valid in a world that holds its weight and its bias. A later world
  extends an earlier one when the storages in use before are untouched, and a
  computation keeps the frame when every world it returns extends the one it started in.
\<close>

definition wf :: "world \<Rightarrow> bool" where
  "wf w = (\<forall>a \<in> dom (store w). a < next_sid w)"

definition valid :: "world \<Rightarrow> ('a module_base_scheme) \<Rightarrow> bool" where
  "valid w l = (weight l \<in> dom (store w) \<and> (\<forall>b. bias l = Some b \<longrightarrow> b \<in> dom (store w)))"

definition extends :: "world \<Rightarrow> world \<Rightarrow> bool" where
  "extends w w' =
     (next_sid w \<le> next_sid w' \<and> (\<forall>a. a < next_sid w \<longrightarrow> store w' a = store w a))"

definition frame :: "'a M \<Rightarrow> bool" where
  "frame m = (\<forall>w x w'. m w = Inr (x, w') \<longrightarrow> extends w w')"

text \<open>Two worlds agree on a layer when its weight and its bias hold the same contents in
  both.\<close>

definition agree :: "world \<Rightarrow> world \<Rightarrow> ('a module_base_scheme) \<Rightarrow> bool" where
  "agree w1 w2 l =
     (store w1 (weight l) = store w2 (weight l) \<and>
      map_option (store w1) (bias l) = map_option (store w2) (bias l))"

text \<open>What a caller can see of a returned chain: each layer's parameters of construction
  and the contents of its weight and of its bias; and the value a computation returns,
  without the world.\<close>

type_synonym conv_view = "conv_params \<times> tensor option \<times> tensor option option"
type_synonym linear_view = "(nat \<times> nat) \<times> tensor option \<times> tensor option option"

definition observe_conv :: "conv2d list M \<Rightarrow> world \<Rightarrow> error + conv_view list" where
  "observe_conv m w =
     (case m w of
        Inl e \<Rightarrow> Inl e
      | Inr (seq, w') \<Rightarrow>
          Inr (map (\<lambda>l. (hyper l, store w' (weight l), map_option (store w') (bias l))) seq))"

definition observe_linear :: "linear list M \<Rightarrow> world \<Rightarrow> error + linear_view list" where
  "observe_linear m w =
     (case m w of
        Inl e \<Rightarrow> Inl e
      | Inr (seq, w') \<Rightarrow>
          Inr (map (\<lambda>l. ((in_features l, out_features l), store w' (weight l),
                          map_option (store w') (bias l))) seq))"

definition result :: "'a M \<Rightarrow> world \<Rightarrow> error + 'a" where
  "result m w = (case m w of Inl e \<Rightarrow> Inl e | Inr (x, w') \<Rightarrow> Inr x)"

text \<open>
  The view of each function's outcome written as a function of the contents of the
  layer's weight, the state of parafac's source of randomness and the contents of the
  layer's bias.
  These are not in the source: they are what the store-passing functions above are
  proved to compute.
\<close>

definition cp_outcome ::
  "library \<Rightarrow> conv2d \<Rightarrow> nat \<Rightarrow> tensor option \<Rightarrow> rng \<Rightarrow> tensor option option \<Rightarrow>
   error + conv_view list" where
  "cp_outcome lib layer rank wt g bc =
     (case wt of
        Some (Ten4 X) \<Rightarrow>
          (case fst (parafac lib X rank
                       (if 256 \<le> max_shape X then Init_random else Init_svd) g) of
             Inl e \<Rightarrow> Inl e
           | Inr fs \<Rightarrow>
               (case fs of
                  [fl, ff, fv, fh] \<Rightarrow>
                    if ncols fv = 0 \<or> ncols fh = 0 then Inl ValueError
                    else
                      (case bc of
                         None \<Rightarrow> Inl AttributeError
                       | Some c \<Rightarrow>
                           Inr [((nrows ff, ncols ff, (1, 1), stride layer, (0, 0),
                                  dilation layer, 1, False),
                                 Some (Ten4 (expand_dims_last_last (transpose_m ff))), None),
                                ((ncols fv, ncols fv, (nrows fv, 1), stride layer,
                                  (fst (padding layer), 0), dilation layer, ncols fv, False),
                                 Some (Ten4 (expand_dims_1_last (transpose_m fv))), None),
                                ((ncols fh, ncols fh, (1, nrows fh), stride layer,
                                  (0, fst (padding layer)), dilation layer, ncols fh, False),
                                 Some (Ten4 (expand_dims_1_1 (transpose_m fh))), None),
                                ((ncols fl, nrows fl, (1, 1), stride layer, (0, 0),
                                  dilation layer, 1, True),
                                 Some (Ten4 (expand_dims_last_last fl)), Some c)])
                | _ \<Rightarrow> Inl ValueError))
      | _ \<Rightarrow> Inl TypeError)"

definition tucker_outcome ::
  "library \<Rightarrow> conv2d \<Rightarrow> tensor option \<Rightarrow> tensor option option \<Rightarrow> error + conv_view list"
  where
  "tucker_outcome lib layer wt bc =
     (case wt of
        Some (Ten4 X) \<Rightarrow>
          (case estimate_ranks_two_unfoldings lib (Ten4 X) of
             Inl e \<Rightarrow> Inl e
           | Inr ranks \<Rightarrow>
               (case partial_tucker lib X [0, 1] ranks Init_svd of
                  Inl e \<Rightarrow> Inl e
                | Inr (core, fs) \<Rightarrow>
                    (case fs of
                       [fl, ff] \<Rightarrow>
                         (case bc of
                            None \<Rightarrow> Inl AttributeError
                          | Some c \<Rightarrow>
                              Inr [((nrows ff, ncols ff, (1, 1), (1, 1), (0, 0),
                                     dilation layer, 1, False),
                                    Some (Ten4 (expand_dims_last_last (transpose_m ff))),
                                    None),
                                   ((fst (snd (shape4 core)), fst (shape4 core),
                                     kernel_size layer, stride layer, padding layer,
                                     dilation layer, 1, False),
                                    Some (Ten4 core), None),
                                   ((ncols fl, nrows fl, (1, 1), (1, 1), (0, 0),
                                     dilation layer, 1, True),
                                    Some (Ten4 (expand_dims_last_last fl)), Some c)])
                     | _ \<Rightarrow> Inl ValueError)))
      | _ \<Rightarrow> Inl TypeError)"

definition svd_outcome ::
  "library \<Rightarrow> tensor option \<Rightarrow> tensor option option \<Rightarrow> error + linear_view list" where
  "svd_outcome lib wt bc =
     (case wt of
        Some (Mat X) \<Rightarrow>
          (case EVBMF lib X of
             Inl e \<Rightarrow> Inl e
           | Inr (_, d, _, _) \<Rightarrow>
               (case svd lib X of
                  Inl e \<Rightarrow> Inl e
                | Inr (U, S, V) \<Rightarrow>
                    (case mm (take_cols (nrows d) U) (diag (take_vec (nrows d) S)) of
                       Inl e \<Rightarrow> Inl e
                     | Inr US \<Rightarrow>
                         (case bc of
                            None \<Rightarrow> Inl AttributeError
                          | Some c \<Rightarrow>
                              Inr [((nrows d, ncols X),
                                    Some (Mat (transpose_m (take_cols (nrows d) V))), None),
                                   ((nrows X, nrows d), Some (Mat US), Some c)]))))
      | _ \<Rightarrow> Inl TypeError)"

subsection \<open>Concrete inputs\<close>

text \<open>
  A stand-in for the libraries that honours the shapes of their results: \<open>parafac\<close>
  returns one factor of shape \<open>(X.shape[i], rank)\<close> per mode, and with random
  initialisation its entries come from its source of randomness, which it advances;
  \<open>partial_tucker\<close> over modes 0 and 1 returns a core of shape
  \<open>(r\<^sub>0, r\<^sub>1, kh, kw)\<close> and factors of shapes \<open>(T, r\<^sub>0)\<close> and \<open>(S, r\<^sub>1)\<close>;
  \<open>unfold\<close> is tensorly's; \<open>EVBMF\<close> estimates rank one; \<open>svd\<close> returns
  \<open>U\<close> of shape \<open>(m, r)\<close>, \<open>S\<close> of length \<open>r\<close> and \<open>V\<close> of shape \<open>(n, r)\<close>
  for \<open>r = min m n\<close>.
\<close>

definition filled :: "real \<Rightarrow> nat \<Rightarrow> nat \<Rightarrow> matrix" where
  "filled v r c = \<lparr>nrows = r, ncols = c, at2 = (\<lambda>i j. v)\<rparr>"

definition demo_unfold :: "tensor \<Rightarrow> nat \<Rightarrow> matrix" where
  "demo_unfold T mode =
     (case T of
        Ten4 X \<Rightarrow>
          (case shape4 X of (a, b, c, d) \<Rightarrow>
             if mode = 0
             then \<lparr>nrows = a, ncols = b * c * d,
                   at2 = (\<lambda>i j. at4 X i (j div (c * d)) ((j div d) mod c) (j mod d))\<rparr>
             else \<lparr>nrows = b, ncols = a * c * d,
                   at2 = (\<lambda>i j. at4 X (j div (c * d)) i ((j div d) mod c) (j mod d))\<rparr>)
      | Mat A \<Rightarrow> (if mode = 0 then A else transpose_m A)
      | Vec v \<Rightarrow> \<lparr>nrows = len v, ncols = 1, at2 = (\<lambda>i j. at1 v i)\<rparr>)"

definition demo_lib :: library where
  "demo_lib =
     \<lparr>parafac = (\<lambda>X rank i g.
        case shape4 X of (a, b, c, d) \<Rightarrow>
          (case i of
             Init_svd \<Rightarrow>
               (Inr [filled 1 a rank, filled 1 b rank, filled 1 c rank, filled 1 d rank], g)
           | Init_random \<Rightarrow>
               (Inr [filled (real g) a rank, filled (real g) b rank, filled (real g) c rank,
                     filled (real g) d rank], Suc g))),
      partial_tucker = (\<lambda>X modes ranks i.
        case shape4 X of (a, b, c, d) \<Rightarrow>
          (case ranks of
             [r0, r1] \<Rightarrow>
               Inr (\<lparr>shape4 = (r0, r1, c, d), at4 = (\<lambda>i j k l. 1)\<rparr>,
                    [filled 1 a r0, filled 1 b r1])
           | _ \<Rightarrow> Inl (LibraryError ''ranks''))),
      unfold = demo_unfold,
      EVBMF = (\<lambda>A. Inr (filled 1 (nrows A) (min 1 (min (nrows A) (ncols A))),
                         filled 1 (min 1 (min (nrows A) (ncols A)))
                                  (min 1 (min (nrows A) (ncols A))),
                         filled 1 (ncols A) (min 1 (min (nrows A) (ncols A))), [])),
      svd = (\<lambda>A. Inr (filled 1 (nrows A) (min (nrows A) (ncols A)),
                       \<lparr>len = min (nrows A) (ncols A), at1 = (\<lambda>i. 1)\<rparr>,
                       filled 1 (ncols A) (min (nrows A) (ncols A)))),
      reset_parameters = (\<lambda>shp g. ((\<lambda>idx. real g), Suc g))\<rparr>"

text \<open>The exception of a library call that fails.\<close>

definition boom :: error where
  "boom = LibraryError ''no convergence''"

text \<open>
  A world with the parameters of five layers: a \<open>3 \<rightarrow> 2\<close> convolution with a
  \<open>3 \<times> 3\<close> kernel, stride 2 and padding 1; the same without bias; a convolution with
  four input channels in two groups; a convolution with 256 output channels; and a
  \<open>3 \<rightarrow> 2\<close> linear layer, with and without bias.
\<close>

definition demo_world :: world where
  "demo_world =
     \<lparr>store = [0 \<mapsto> Ten4 \<lparr>shape4 = (2, 3, 3, 3), at4 = (\<lambda>i j k l. 1)\<rparr>,
               1 \<mapsto> Vec \<lparr>len = 2, at1 = (\<lambda>i. 5)\<rparr>,
               2 \<mapsto> Ten4 \<lparr>shape4 = (2, 2, 3, 3), at4 = (\<lambda>i j k l. 1)\<rparr>,
               3 \<mapsto> Ten4 \<lparr>shape4 = (256, 1, 1, 1), at4 = (\<lambda>i j k l. 1)\<rparr>,
               4 \<mapsto> Vec \<lparr>len = 256, at1 = (\<lambda>i. 5)\<rparr>,
               5 \<mapsto> Mat \<lparr>nrows = 2, ncols = 3, at2 = (\<lambda>i j. 1)\<rparr>],
      next_sid = 6, entropy = 0, torch_rng = 0\<rparr>"

definition plain_layer :: conv2d where
  "plain_layer =
     \<lparr>weight = 0, bias = Some 1, in_channels = 3, out_channels = 2, kernel_size = (3, 3),
      stride = (2, 2), padding = (1, 1), dilation = (1, 1), groups = 1\<rparr>"

definition nobias_layer :: conv2d where
  "nobias_layer = plain_layer\<lparr>bias := None\<rparr>"

definition grouped_layer :: conv2d where
  "grouped_layer = plain_layer\<lparr>weight := 2, in_channels := 4, groups := 2\<rparr>"

definition big_layer :: conv2d where
  "big_layer =
     \<lparr>weight = 3, bias = Some 4, in_channels = 1, out_channels = 256, kernel_size = (1, 1),
      stride = (1, 1), padding = (0, 0), dilation = (1, 1), groups = 1\<rparr>"

definition dense_layer :: linear where
  "dense_layer = \<lparr>weight = 5, bias = Some 1, in_features = 3, out_features = 2\<rparr>"

definition nobias_dense :: linear where
  "nobias_dense = dense_layer\<lparr>bias := None\<rparr>"

text \<open>
  Two more behaviours of the libraries on equal arguments: one in which
  \<open>partial_tucker\<close> returns its two factors with the opposite sign, and one that
  differs only in how the constructors initialise a new parameter.
\<close>

definition sign_flipped :: library where
  "sign_flipped =
     demo_lib\<lparr>partial_tucker := (\<lambda>X modes ranks i.
        case shape4 X of (a, b, c, d) \<Rightarrow>
          (case ranks of
             [r0, r1] \<Rightarrow>
               Inr (\<lparr>shape4 = (r0, r1, c, d), at4 = (\<lambda>i j k l. 1)\<rparr>,
                    [filled (- 1) a r0, filled (- 1) b r1])
           | _ \<Rightarrow> Inl (LibraryError ''ranks'')))\<rparr>"

definition other_init :: library where
  "other_init = demo_lib\<lparr>reset_parameters := (\<lambda>shp g. ((\<lambda>idx. 7), g + 2))\<rparr>"

text \<open>Libraries in which one call raises: \<open>parafac\<close>, every \<open>EVBMF\<close>, \<open>EVBMF\<close> on
  a matrix of three rows (the mode-1 unfolding of the first layer's weight),
  \<open>partial_tucker\<close>, and \<open>svd\<close>.\<close>

definition parafac_fails :: library where
  "parafac_fails = demo_lib\<lparr>parafac := (\<lambda>X rank i g. (Inl boom, g))\<rparr>"

definition EVBMF_fails :: library where
  "EVBMF_fails = demo_lib\<lparr>EVBMF := (\<lambda>A. Inl boom)\<rparr>"

definition EVBMF_fails_on_mode_1 :: library where
  "EVBMF_fails_on_mode_1 =
     demo_lib\<lparr>EVBMF := (\<lambda>A. if nrows A = 3 then Inl boom else EVBMF demo_lib A)\<rparr>"

definition partial_tucker_fails :: library where
  "partial_tucker_fails = demo_lib\<lparr>partial_tucker := (\<lambda>X modes ranks i. Inl boom)\<rparr>"

definition svd_fails :: library where
  "svd_fails = demo_lib\<lparr>svd := (\<lambda>A. Inl boom)\<rparr>"

section \<open>Properties\<close>

subsection \<open>Running the computations\<close>

lemmas monad_defs = bind_def ret_def raise_def lift_def alloc_def draw_def call_parafac_def
  weight_data4_def weight_data2_def bias_data_def set_weight_data_def set_bias_data_def
  unpack4_def unpack2_def

lemmas exec_defs = Conv2d_def Linear_def monad_defs pair_def case_prod_beta

lemmas demo_defs = demo_lib_def demo_world_def plain_layer_def dense_layer_def filled_def
  demo_unfold_def max_shape_def

lemma bindE:
  assumes "bind m f w = Inr r"
  obtains x w1 where "m w = Inr (x, w1)" and "f x w1 = Inr r"
  using assms by (auto simp: bind_def split: sum.splits)

lemma ret_Inr [simp]: "ret x w = Inr (y, w') \<longleftrightarrow> y = x \<and> w' = w"
  by (auto simp: ret_def)

lemma raise_Inr [simp]: "raise e w \<noteq> Inr r"
  by (simp add: raise_def)

lemma lift_Inr [simp]: "lift r w = Inr (x, w') \<longleftrightarrow> r = Inr x \<and> w' = w"
  by (auto simp: lift_def ret_def raise_def split: sum.splits)

lemma weight_data4_Inr [simp]:
  "weight_data4 l w = Inr (X, w') \<longleftrightarrow> store w (weight l) = Some (Ten4 X) \<and> w' = w"
  by (auto simp: weight_data4_def split: option.splits tensor.splits)

lemma weight_data2_Inr [simp]:
  "weight_data2 l w = Inr (X, w') \<longleftrightarrow> store w (weight l) = Some (Mat X) \<and> w' = w"
  by (auto simp: weight_data2_def split: option.splits tensor.splits)

lemma bias_data_Inr [simp]: "bias_data l w = Inr (d, w') \<longleftrightarrow> bias l = Some d \<and> w' = w"
  by (auto simp: bias_data_def ret_def raise_def split: option.splits)

lemma set_bias_data_Inr [simp]:
  "set_bias_data l d w = Inr (l', w') \<longleftrightarrow> bias l \<noteq> None \<and> l' = l\<lparr>bias := Some d\<rparr> \<and> w' = w"
  by (auto simp: set_bias_data_def ret_def raise_def split: option.splits)

lemma call_parafac_Inr [simp]:
  "call_parafac lib X rank i w = Inr (fs, w') \<longleftrightarrow>
     fst (parafac lib X rank i (entropy w)) = Inr fs \<and>
     w' = w\<lparr>entropy := snd (parafac lib X rank i (entropy w))\<rparr>"
  by (auto simp: call_parafac_def split: prod.splits sum.splits)

lemma unpack4_Inr [simp]:
  "unpack4 xs w = Inr ((a, b, c, d), w') \<longleftrightarrow> xs = [a, b, c, d] \<and> w' = w"
  by (auto simp: unpack4_def ret_def raise_def split: list.splits)

lemma unpack2_Inr [simp]: "unpack2 xs w = Inr ((a, b), w') \<longleftrightarrow> xs = [a, b] \<and> w' = w"
  by (auto simp: unpack2_def ret_def raise_def split: list.splits)

lemma Conv2d_Inr:
  assumes "Conv2d lib ic oc ks st pad dil g b w = Inr (c, w')"
  shows "stride c = st \<and> padding c = pad \<and> (bias c \<noteq> None \<longleftrightarrow> b)"
  using assms
  by (auto simp: Conv2d_def bind_def alloc_def draw_def ret_def raise_def
      split: if_splits prod.splits)

lemma Linear_Inr:
  assumes "Linear lib i oc b w = Inr (c, w')"
  shows "bias c \<noteq> None \<longleftrightarrow> b"
  using assms
  by (auto simp: Linear_def bind_def alloc_def draw_def ret_def raise_def
      split: if_splits prod.splits)

text \<open>What holds of a chain whenever one is returned.\<close>

lemma cp_returnsD:
  assumes "cp_decomposition_conv_layer lib layer rank w = Inr (seq, w')"
  shows "map stride seq = [stride layer, stride layer, stride layer, stride layer] \<and>
    map padding seq = [(0, 0), (fst (padding layer), 0), (0, fst (padding layer)), (0, 0)] \<and>
    map bias seq = [None, None, None, bias layer] \<and> bias layer \<noteq> None \<and>
    weight layer \<in> dom (store w)"
  using assms unfolding cp_decomposition_conv_layer_def
  by (auto simp: pair_def set_weight_data_def alloc_def elim!: bindE dest!: Conv2d_Inr)

lemma tucker_returnsD:
  assumes "tucker_decomposition_conv_layer lib layer w = Inr (seq, w')"
  shows "map stride seq = [(1, 1), stride layer, (1, 1)] \<and>
    map bias seq = [None, None, bias layer] \<and> bias layer \<noteq> None \<and>
    weight layer \<in> dom (store w)"
  using assms unfolding tucker_decomposition_conv_layer_def estimate_ranks_tucker_def
  by (auto simp: pair_def set_weight_data_def alloc_def elim!: bindE dest!: Conv2d_Inr)

lemma svd_returnsD:
  assumes "svd_decomposition_dense_layer lib layer w = Inr (seq, w')"
  shows "map bias seq = [None, bias layer] \<and> bias layer \<noteq> None \<and>
    weight layer \<in> dom (store w)"
  using assms unfolding svd_decomposition_dense_layer_def estimate_ranks_svd_def
  by (auto simp: set_weight_data_def alloc_def elim!: bindE dest!: Linear_Inr)

text \<open>The three functions return on the concrete inputs.\<close>

lemma cp_demo_returns:
  "\<exists>seq w'. cp_decomposition_conv_layer demo_lib plain_layer 1 demo_world = Inr (seq, w')"
  by (simp add: cp_decomposition_conv_layer_def exec_defs demo_defs)

lemma tucker_demo_returns:
  "\<exists>seq w'. tucker_decomposition_conv_layer demo_lib plain_layer demo_world = Inr (seq, w')"
  by (simp add: tucker_decomposition_conv_layer_def estimate_ranks_tucker_def exec_defs
      demo_defs)

lemma svd_demo_returns:
  "\<exists>seq w'. svd_decomposition_dense_layer demo_lib dense_layer demo_world = Inr (seq, w')"
  by (simp add: svd_decomposition_dense_layer_def estimate_ranks_svd_def exec_defs demo_defs
      mm_def diag_def take_cols_def take_vec_def)

lemma wf_demo_world: "wf demo_world"
  by (simp add: wf_def demo_world_def)

lemma valid_demo:
  "valid demo_world plain_layer" "valid demo_world dense_layer"
  by (simp_all add: valid_def demo_defs)

subsection \<open>The frame\<close>

lemma extends_refl [simp]: "extends w w"
  by (simp add: extends_def)

lemma extends_trans: "extends w1 w2 \<Longrightarrow> extends w2 w3 \<Longrightarrow> extends w1 w3"
  by (auto simp: extends_def)

lemma frame_bind: "frame m \<Longrightarrow> (\<And>x. frame (f x)) \<Longrightarrow> frame (bind m f)"
  unfolding frame_def by (blast elim: bindE intro: extends_trans)

lemma frame_ret: "frame (ret x)"
  by (simp add: frame_def)

lemma frame_raise: "frame (raise e)"
  by (simp add: frame_def)

lemma frame_lift: "frame (lift r)"
  by (simp add: frame_def)

lemma frame_alloc: "frame (alloc t)"
  by (auto simp: frame_def alloc_def extends_def)

lemma frame_draw: "frame (draw lib shp)"
  by (auto simp: frame_def draw_def extends_def split: prod.splits)

lemma frame_call_parafac: "frame (call_parafac lib X rank i)"
  by (auto simp: frame_def extends_def)

lemma frame_reads:
  "frame (weight_data4 l)" "frame (weight_data2 l)" "frame (bias_data l)"
  "frame (set_bias_data l d)" "frame (unpack4 xs)" "frame (unpack2 xs)"
  by (auto simp: frame_def unpack4_def unpack2_def ret_def raise_def split: list.splits)

lemma frame_if: "frame m \<Longrightarrow> frame n \<Longrightarrow> frame (if c then m else n)"
  by simp

lemma frame_case_prod: "(\<And>a b. frame (f a b)) \<Longrightarrow> frame (case p of (a, b) \<Rightarrow> f a b)"
  by (cases p) simp

lemmas frame_intros = frame_bind frame_ret frame_raise frame_lift frame_alloc frame_draw
  frame_call_parafac frame_reads frame_if frame_case_prod

lemma frame_set_weight_data: "frame (set_weight_data l t)"
  unfolding set_weight_data_def by (intro frame_intros)

lemma frame_Conv2d: "frame (Conv2d lib ic oc ks st pad dil g b)"
  unfolding Conv2d_def by (intro frame_intros)

lemma frame_Linear: "frame (Linear lib i oc b)"
  unfolding Linear_def by (intro frame_intros)

lemma frame_estimate_ranks_tucker: "frame (estimate_ranks_tucker lib layer)"
  unfolding estimate_ranks_tucker_def by (intro frame_intros)

lemma frame_estimate_ranks_svd: "frame (estimate_ranks_svd lib layer)"
  unfolding estimate_ranks_svd_def by (intro frame_intros)

lemma frame_cp: "frame (cp_decomposition_conv_layer lib layer rank)"
  unfolding cp_decomposition_conv_layer_def
  by (intro frame_intros frame_set_weight_data frame_Conv2d)

lemma frame_tucker: "frame (tucker_decomposition_conv_layer lib layer)"
  unfolding tucker_decomposition_conv_layer_def
  by (intro frame_intros frame_set_weight_data frame_Conv2d frame_estimate_ranks_tucker)

lemma frame_svd: "frame (svd_decomposition_dense_layer lib layer)"
  unfolding svd_decomposition_dense_layer_def
  by (intro frame_intros frame_set_weight_data frame_Linear frame_estimate_ranks_svd)

lemma frameD:
  assumes "frame m" and "wf w" and "m w = Inr (x, w')"
  shows "\<forall>a \<in> dom (store w). store w' a = store w a"
  using assms by (auto simp: frame_def extends_def wf_def)

lemma frame_bias:
  assumes "frame m" and "wf w" and "valid w l" and "m w = Inr (x, w')"
  shows "map_option (store w') (bias l) = map_option (store w) (bias l)"
  using frameD [OF assms(1,2,4)] assms(3) by (cases "bias l") (auto simp: valid_def)

text \<open>
  C6. After any of the three functions returns, every storage that existed before the
  call, the input layer's weight and bias among them, holds the contents it held before.
\<close>

theorem inputs_unchanged:
  assumes "wf w" and "valid w layer" and "valid w dense"
  shows
    "(cp_decomposition_conv_layer lib layer rank w = Inr (seq1, w1) \<longrightarrow>
        (\<forall>a \<in> dom (store w). store w1 a = store w a) \<and>
        store w1 (weight layer) = store w (weight layer) \<and>
        map_option (store w1) (bias layer) = map_option (store w) (bias layer)) \<and>
     (tucker_decomposition_conv_layer lib layer w = Inr (seq2, w2) \<longrightarrow>
        (\<forall>a \<in> dom (store w). store w2 a = store w a) \<and>
        store w2 (weight layer) = store w (weight layer) \<and>
        map_option (store w2) (bias layer) = map_option (store w) (bias layer)) \<and>
     (svd_decomposition_dense_layer lib dense w = Inr (seq3, w3) \<longrightarrow>
        (\<forall>a \<in> dom (store w). store w3 a = store w a) \<and>
        store w3 (weight dense) = store w (weight dense) \<and>
        map_option (store w3) (bias dense) = map_option (store w) (bias dense))"
  using assms(1) cp_returnsD [of lib layer rank w seq1 w1]
    tucker_returnsD [of lib layer w seq2 w2] svd_returnsD [of lib dense w seq3 w3]
    frameD [OF frame_cp, of w lib layer rank seq1 w1]
    frameD [OF frame_tucker, of w lib layer seq2 w2]
    frameD [OF frame_svd, of w lib dense seq3 w3]
    frame_bias [OF frame_cp assms(1,2), of lib layer rank seq1 w1]
    frame_bias [OF frame_tucker assms(1,2), of lib layer seq2 w2]
    frame_bias [OF frame_svd assms(1,3), of lib dense seq3 w3]
  by blast

theorem inputs_unchanged_witness:
  "\<exists>seq1 w1 seq2 w2 seq3 w3.
     cp_decomposition_conv_layer demo_lib plain_layer 1 demo_world = Inr (seq1, w1) \<and>
     tucker_decomposition_conv_layer demo_lib plain_layer demo_world = Inr (seq2, w2) \<and>
     svd_decomposition_dense_layer demo_lib dense_layer demo_world = Inr (seq3, w3) \<and>
     store w1 0 = store demo_world 0 \<and> store w1 1 = store demo_world 1 \<and>
     store w2 0 = store demo_world 0 \<and> store w2 1 = store demo_world 1 \<and>
     store w3 5 = store demo_world 5 \<and> store w3 1 = store demo_world 1"
proof -
  obtain seq1 w1 seq2 w2 seq3 w3 where
    r: "cp_decomposition_conv_layer demo_lib plain_layer 1 demo_world = Inr (seq1, w1)"
       "tucker_decomposition_conv_layer demo_lib plain_layer demo_world = Inr (seq2, w2)"
       "svd_decomposition_dense_layer demo_lib dense_layer demo_world = Inr (seq3, w3)"
    using cp_demo_returns tucker_demo_returns svd_demo_returns by blast
  with inputs_unchanged [OF wf_demo_world valid_demo, of demo_lib 1 seq1 w1 seq2 w2 seq3 w3]
  have "store w1 0 = store demo_world 0 \<and> store w1 1 = store demo_world 1 \<and>
     store w2 0 = store demo_world 0 \<and> store w2 1 = store demo_world 1 \<and>
     store w3 5 = store demo_world 5 \<and> store w3 1 = store demo_world 1"
    by (simp add: plain_layer_def dense_layer_def)
  with r show ?thesis by auto
qed

subsection \<open>Strides, padding and biases of the chains\<close>

text \<open>
  C10. \<open>cp_decomposition_conv_layer\<close> gives all four convolutions of its chain, the
  two pointwise ones included, the stride of the original layer, and pads the two
  depthwise ones by the first component of the original padding; whereas
  \<open>tucker_decomposition_conv_layer\<close> gives its two pointwise convolutions stride 1
  and only the core convolution the original stride.
\<close>

theorem replacement_strides_and_padding:
  "(cp_decomposition_conv_layer lib layer rank w = Inr (seq1, w1) \<longrightarrow>
      map stride seq1 = [stride layer, stride layer, stride layer, stride layer] \<and>
      map padding seq1 =
        [(0, 0), (fst (padding layer), 0), (0, fst (padding layer)), (0, 0)]) \<and>
   (tucker_decomposition_conv_layer lib layer w = Inr (seq2, w2) \<longrightarrow>
      map stride seq2 = [(1, 1), stride layer, (1, 1)])"
  using cp_returnsD [of lib layer rank w seq1 w1] tucker_returnsD [of lib layer w seq2 w2]
  by blast

theorem replacement_strides_and_padding_witness:
  "\<exists>seq1 w1 seq2 w2.
     cp_decomposition_conv_layer demo_lib plain_layer 1 demo_world = Inr (seq1, w1) \<and>
     tucker_decomposition_conv_layer demo_lib plain_layer demo_world = Inr (seq2, w2) \<and>
     map stride seq1 = [(2, 2), (2, 2), (2, 2), (2, 2)] \<and>
     map padding seq1 = [(0, 0), (1, 0), (0, 1), (0, 0)] \<and>
     map stride seq2 = [(1, 1), (2, 2), (1, 1)]"
proof -
  obtain seq1 w1 seq2 w2 where
    r: "cp_decomposition_conv_layer demo_lib plain_layer 1 demo_world = Inr (seq1, w1)"
       "tucker_decomposition_conv_layer demo_lib plain_layer demo_world = Inr (seq2, w2)"
    using cp_demo_returns tucker_demo_returns by blast
  with replacement_strides_and_padding [of demo_lib plain_layer 1 demo_world seq1 w1 seq2 w2]
  have "map stride seq1 = [(2, 2), (2, 2), (2, 2), (2, 2)] \<and>
     map padding seq1 = [(0, 0), (1, 0), (0, 1), (0, 0)] \<and>
     map stride seq2 = [(1, 1), (2, 2), (1, 1)]"
    by (simp add: plain_layer_def)
  with r show ?thesis by auto
qed

text \<open>
  C9. In every chain returned by any of the three functions only the last layer has a
  bias; each earlier layer is built without one. The last layer's bias is the storage of
  the original layer's bias, whose contents the call leaves as they were.
\<close>

theorem only_last_layer_has_bias:
  assumes "wf w" and "valid w layer" and "valid w dense"
  shows
    "(cp_decomposition_conv_layer lib layer rank w = Inr (seq1, w1) \<longrightarrow>
        map bias seq1 = [None, None, None, bias layer] \<and> bias layer \<noteq> None \<and>
        map_option (store w1) (bias layer) = map_option (store w) (bias layer)) \<and>
     (tucker_decomposition_conv_layer lib layer w = Inr (seq2, w2) \<longrightarrow>
        map bias seq2 = [None, None, bias layer] \<and> bias layer \<noteq> None \<and>
        map_option (store w2) (bias layer) = map_option (store w) (bias layer)) \<and>
     (svd_decomposition_dense_layer lib dense w = Inr (seq3, w3) \<longrightarrow>
        map bias seq3 = [None, bias dense] \<and> bias dense \<noteq> None \<and>
        map_option (store w3) (bias dense) = map_option (store w) (bias dense))"
  using cp_returnsD [of lib layer rank w seq1 w1]
    tucker_returnsD [of lib layer w seq2 w2] svd_returnsD [of lib dense w seq3 w3]
    frame_bias [OF frame_cp assms(1,2), of lib layer rank seq1 w1]
    frame_bias [OF frame_tucker assms(1,2), of lib layer seq2 w2]
    frame_bias [OF frame_svd assms(1,3), of lib dense seq3 w3]
  by blast

theorem only_last_layer_has_bias_witness:
  "\<exists>seq1 w1 seq2 w2 seq3 w3.
     cp_decomposition_conv_layer demo_lib plain_layer 1 demo_world = Inr (seq1, w1) \<and>
     tucker_decomposition_conv_layer demo_lib plain_layer demo_world = Inr (seq2, w2) \<and>
     svd_decomposition_dense_layer demo_lib dense_layer demo_world = Inr (seq3, w3) \<and>
     map bias seq1 = [None, None, None, Some 1] \<and>
     map bias seq2 = [None, None, Some 1] \<and>
     map bias seq3 = [None, Some 1] \<and>
     store w1 1 = store demo_world 1 \<and> store w2 1 = store demo_world 1 \<and>
     store w3 1 = store demo_world 1"
proof -
  obtain seq1 w1 seq2 w2 seq3 w3 where
    r: "cp_decomposition_conv_layer demo_lib plain_layer 1 demo_world = Inr (seq1, w1)"
       "tucker_decomposition_conv_layer demo_lib plain_layer demo_world = Inr (seq2, w2)"
       "svd_decomposition_dense_layer demo_lib dense_layer demo_world = Inr (seq3, w3)"
    using cp_demo_returns tucker_demo_returns svd_demo_returns by blast
  with only_last_layer_has_bias [OF wf_demo_world valid_demo, of demo_lib 1 seq1 w1 seq2 w2
      seq3 w3]
  have "map bias seq1 = [None, None, None, Some 1] \<and>
     map bias seq2 = [None, None, Some 1] \<and>
     map bias seq3 = [None, Some 1] \<and>
     store w1 1 = store demo_world 1 \<and> store w2 1 = store demo_world 1 \<and>
     store w3 1 = store demo_world 1"
    by (simp add: plain_layer_def dense_layer_def)
  with r show ?thesis by auto
qed

subsection \<open>A layer without bias\<close>

text \<open>
  C7, as amended. The bias is not optional: for an input layer whose bias is \<open>None\<close>
  none of the three functions returns a chain; each raises.
\<close>

theorem absent_bias_raises:
  assumes "bias layer = None" and "bias dense = None"
  shows "(\<exists>e. cp_decomposition_conv_layer lib layer rank w = Inl e) \<and>
         (\<exists>e. tucker_decomposition_conv_layer lib layer w = Inl e) \<and>
         (\<exists>e. svd_decomposition_dense_layer lib dense w = Inl e)"
proof (intro conjI)
  show "\<exists>e. cp_decomposition_conv_layer lib layer rank w = Inl e"
    using assms(1) cp_returnsD [of lib layer rank w]
    by (cases "cp_decomposition_conv_layer lib layer rank w") auto
  show "\<exists>e. tucker_decomposition_conv_layer lib layer w = Inl e"
    using assms(1) tucker_returnsD [of lib layer w]
    by (cases "tucker_decomposition_conv_layer lib layer w") auto
  show "\<exists>e. svd_decomposition_dense_layer lib dense w = Inl e"
    using assms(2) svd_returnsD [of lib dense w]
    by (cases "svd_decomposition_dense_layer lib dense w") auto
qed

theorem absent_bias_raises_witness:
  "(\<exists>e. cp_decomposition_conv_layer demo_lib nobias_layer 1 demo_world = Inl e) \<and>
   (\<exists>e. tucker_decomposition_conv_layer demo_lib nobias_layer demo_world = Inl e) \<and>
   (\<exists>e. svd_decomposition_dense_layer demo_lib nobias_dense demo_world = Inl e)"
  using absent_bias_raises [of nobias_layer nobias_dense demo_lib 1 demo_world]
  by (simp add: nobias_layer_def nobias_dense_def)

text \<open>On a convolution and a linear layer without bias, with every library call
  succeeding, each function raises AttributeError.\<close>

theorem absent_bias_counterexample:
  "cp_decomposition_conv_layer demo_lib nobias_layer 1 demo_world = Inl AttributeError \<and>
   tucker_decomposition_conv_layer demo_lib nobias_layer demo_world = Inl AttributeError \<and>
   svd_decomposition_dense_layer demo_lib nobias_dense demo_world = Inl AttributeError"
  by (simp add: cp_decomposition_conv_layer_def tucker_decomposition_conv_layer_def
      svd_decomposition_dense_layer_def estimate_ranks_tucker_def estimate_ranks_svd_def
      exec_defs demo_defs nobias_layer_def nobias_dense_def mm_def diag_def take_cols_def
      take_vec_def)

subsection \<open>The chain built from a CP decomposition\<close>

text \<open>
  C2, as amended. For a convolution with a bias and \<open>groups = 1\<close>, and a rank
  \<open>R > 0\<close> for which \<open>parafac\<close> returns four factors of shapes \<open>(T, R)\<close>,
  \<open>(S, R)\<close>, \<open>(kh, R)\<close>, \<open>(kw, R)\<close>, \<open>cp_decomposition_conv_layer\<close> returns
  exactly four convolutions, in this order: a \<open>1 \<times> 1\<close> convolution from the layer's
  input channels to \<open>R\<close>, a depthwise \<open>kh \<times> 1\<close> convolution over \<open>R\<close> channels, a
  depthwise \<open>1 \<times> kw\<close> convolution over \<open>R\<close> channels, and a \<open>1 \<times> 1\<close> convolution
  from \<open>R\<close> to the layer's output channels. The first layer's input channels are read
  from the second dimension of the weight, which is \<open>in_channels // groups\<close>.
\<close>

theorem cp_chain_structure:
  assumes "store w (weight layer) = Some (Ten4 X)"
    and "shape4 X = (out_channels layer, in_channels layer div groups layer, kernel_size layer)"
    and "groups layer = 1"
    and "bias layer = Some b"
    and "0 < rank"
    and "parafac lib X rank (if 256 \<le> max_shape X then Init_random else Init_svd) (entropy w)
          = (Inr [fl, ff, fv, fh], g)"
    and "map nrows [fl, ff, fv, fh] = (case shape4 X of (t, s, kh, kw) \<Rightarrow> [t, s, kh, kw])"
    and "map ncols [fl, ff, fv, fh] = [rank, rank, rank, rank]"
  shows "returned_hyper (cp_decomposition_conv_layer lib layer rank) w =
     Inr [(in_channels layer, rank, (1, 1), stride layer, (0, 0), dilation layer, 1, False),
          (rank, rank, (fst (kernel_size layer), 1), stride layer,
             (fst (padding layer), 0), dilation layer, rank, False),
          (rank, rank, (1, snd (kernel_size layer)), stride layer,
             (0, fst (padding layer)), dilation layer, rank, False),
          (rank, out_channels layer, (1, 1), stride layer, (0, 0), dilation layer, 1, True)]"
  using assms
  by (simp add: returned_hyper_def cp_decomposition_conv_layer_def Conv2d_def monad_defs
      hyper_def pair_def split: prod.splits)

theorem cp_chain_structure_witness:
  "returned_hyper (cp_decomposition_conv_layer demo_lib plain_layer 1) demo_world =
     Inr [(3, 1, (1, 1), (2, 2), (0, 0), (1, 1), 1, False),
          (1, 1, (3, 1), (2, 2), (1, 0), (1, 1), 1, False),
          (1, 1, (1, 3), (2, 2), (0, 1), (1, 1), 1, False),
          (1, 2, (1, 1), (2, 2), (0, 0), (1, 1), 1, True)]"
  using cp_chain_structure [of demo_world plain_layer
      "\<lparr>shape4 = (2, 3, 3, 3), at4 = (\<lambda>i j k l. 1)\<rparr>" 1 1 demo_lib
      "filled 1 2 1" "filled 1 3 1" "filled 1 3 1" "filled 1 3 1" 0]
  by (simp add: demo_defs)

text \<open>
  For a layer with four input channels in two groups the weight has two input planes,
  and the first layer of the chain takes two channels, not four.
\<close>

theorem cp_grouped_layer_counterexample:
  "returned_hyper (cp_decomposition_conv_layer demo_lib grouped_layer 1) demo_world =
     Inr [(2, 1, (1, 1), (2, 2), (0, 0), (1, 1), 1, False),
          (1, 1, (3, 1), (2, 2), (1, 0), (1, 1), 1, False),
          (1, 1, (1, 3), (2, 2), (0, 1), (1, 1), 1, False),
          (1, 2, (1, 1), (2, 2), (0, 0), (1, 1), 1, True)] \<and>
   in_channels grouped_layer = 4"
  by (simp add: returned_hyper_def cp_decomposition_conv_layer_def Conv2d_def monad_defs
      hyper_def pair_def demo_defs grouped_layer_def)

subsection \<open>The chain built from a Tucker decomposition\<close>

text \<open>
  C3, as amended. For a convolution with a bias and \<open>groups = 1\<close> on which the
  library calls succeed, with \<open>r\<^sub>0\<close> and \<open>r\<^sub>1\<close> the sizes of the diagonal matrices
  that EVBMF returns for the mode-0 and mode-1 unfoldings of the weight, and
  \<open>partial_tucker\<close> over modes 0 and 1 at ranks \<open>[r\<^sub>0, r\<^sub>1]\<close> returning a core of
  shape \<open>(r\<^sub>0, r\<^sub>1, kh, kw)\<close> and factors of shapes \<open>(T, r\<^sub>0)\<close> and \<open>(S, r\<^sub>1)\<close>:
  \<open>tucker_decomposition_conv_layer\<close> returns exactly three convolutions, in this
  order: a \<open>1 \<times> 1\<close> convolution from the layer's input channels to \<open>r\<^sub>1\<close>, a
  convolution from \<open>r\<^sub>1\<close> to \<open>r\<^sub>0\<close> channels with the layer's kernel size, stride and
  padding whose weight is the core, and a \<open>1 \<times> 1\<close> convolution from \<open>r\<^sub>0\<close> to the
  layer's output channels; the weights of the two pointwise layers are the two factors.
\<close>

theorem tucker_chain_structure:
  assumes "store w (weight layer) = Some (Ten4 X)"
    and "shape4 X = (out_channels layer, in_channels layer div groups layer, kernel_size layer)"
    and "groups layer = 1"
    and "bias layer = Some b"
    and "EVBMF lib (unfold lib (Ten4 X) 0) = Inr (u0, diag_0, v0, p0)"
    and "EVBMF lib (unfold lib (Ten4 X) 1) = Inr (u1, diag_1, v1, p1)"
    and "partial_tucker lib X [0, 1] [nrows diag_0, ncols diag_1] Init_svd
          = Inr (core, [fl, ff])"
    and "shape4 core = (nrows diag_0, ncols diag_1, snd (snd (shape4 X)))"
    and "nrows fl = fst (shape4 X)" and "ncols fl = nrows diag_0"
    and "nrows ff = fst (snd (shape4 X))" and "ncols ff = ncols diag_1"
  shows "\<exists>first_layer core_layer last_layer w'.
     tucker_decomposition_conv_layer lib layer w
       = Inr ([first_layer, core_layer, last_layer], w') \<and>
     map hyper [first_layer, core_layer, last_layer] =
       [(in_channels layer, ncols diag_1, (1, 1), (1, 1), (0, 0), dilation layer, 1, False),
        (ncols diag_1, nrows diag_0, kernel_size layer, stride layer, padding layer,
           dilation layer, 1, False),
        (nrows diag_0, out_channels layer, (1, 1), (1, 1), (0, 0), dilation layer, 1, True)] \<and>
     store w' (weight first_layer) = Some (Ten4 (expand_dims_last_last (transpose_m ff))) \<and>
     store w' (weight core_layer) = Some (Ten4 core) \<and>
     store w' (weight last_layer) = Some (Ten4 (expand_dims_last_last fl))"
  using assms
  by (simp add: tucker_decomposition_conv_layer_def estimate_ranks_tucker_def Conv2d_def
      monad_defs hyper_def pair_def split: prod.splits)

theorem tucker_chain_structure_witness:
  "\<exists>first_layer core_layer last_layer w'.
     tucker_decomposition_conv_layer demo_lib plain_layer demo_world
       = Inr ([first_layer, core_layer, last_layer], w') \<and>
     map hyper [first_layer, core_layer, last_layer] =
       [(3, 1, (1, 1), (1, 1), (0, 0), (1, 1), 1, False),
        (1, 1, (3, 3), (2, 2), (1, 1), (1, 1), 1, False),
        (1, 2, (1, 1), (1, 1), (0, 0), (1, 1), 1, True)] \<and>
     store w' (weight first_layer)
       = Some (Ten4 (expand_dims_last_last (transpose_m (filled 1 3 1)))) \<and>
     store w' (weight core_layer)
       = Some (Ten4 \<lparr>shape4 = (1, 1, 3, 3), at4 = (\<lambda>i j k l. 1)\<rparr>) \<and>
     store w' (weight last_layer) = Some (Ten4 (expand_dims_last_last (filled 1 2 1)))"
  using tucker_chain_structure [of demo_world plain_layer
      "\<lparr>shape4 = (2, 3, 3, 3), at4 = (\<lambda>i j k l. 1)\<rparr>" 1 demo_lib
      "filled 1 2 1" "filled 1 1 1" "filled 1 27 1" "[]"
      "filled 1 3 1" "filled 1 1 1" "filled 1 18 1" "[]"
      "\<lparr>shape4 = (1, 1, 3, 3), at4 = (\<lambda>i j k l. 1)\<rparr>" "filled 1 2 1" "filled 1 3 1"]
  by (simp add: demo_defs)

text \<open>
  For the layer with four input channels in two groups the first layer of the chain
  takes two channels, not four.
\<close>

theorem tucker_grouped_layer_counterexample:
  "returned_hyper (tucker_decomposition_conv_layer demo_lib grouped_layer) demo_world =
     Inr [(2, 1, (1, 1), (1, 1), (0, 0), (1, 1), 1, False),
          (1, 1, (3, 3), (2, 2), (1, 1), (1, 1), 1, False),
          (1, 2, (1, 1), (1, 1), (0, 0), (1, 1), 1, True)] \<and>
   in_channels grouped_layer = 4"
  by (simp add: returned_hyper_def tucker_decomposition_conv_layer_def
      estimate_ranks_tucker_def Conv2d_def monad_defs hyper_def pair_def demo_defs
      grouped_layer_def)

subsection \<open>The chain built from a truncated singular value decomposition\<close>

lemma diag_sum:
  fixes u s :: "nat \<Rightarrow> real"
  shows "(\<Sum>l<k. u l * (if l = j then s l else 0)) = (if j < k then u j * s j else 0)"
proof -
  have "(\<Sum>l<k. u l * (if l = j then s l else 0)) = (\<Sum>l<k. if l = j then u l * s l else 0)"
    by (rule sum.cong) auto
  also have "\<dots> = (if j < k then u j * s j else 0)"
    by (simp add: sum.delta')
  finally show ?thesis .
qed

text \<open>Applying \<open>V\<^sub>k\<^sup>T\<close> and then \<open>U\<^sub>k \<Sigma>\<^sub>k\<close> is applying \<open>U\<^sub>k \<Sigma>\<^sub>k V\<^sub>k\<^sup>T\<close>.\<close>

lemma chain_sum:
  fixes U V :: "nat \<Rightarrow> nat \<Rightarrow> real" and s x :: "nat \<Rightarrow> real"
  shows "(\<Sum>j<k. (\<Sum>l<k. U i l * (if l = j then s l else 0)) * (\<Sum>t<n. V t j * x t)) =
         (\<Sum>t<n. (\<Sum>l<k. U i l * s l * V t l) * x t)"
proof -
  have "(\<Sum>j<k. (\<Sum>l<k. U i l * (if l = j then s l else 0)) * (\<Sum>t<n. V t j * x t)) =
        (\<Sum>j<k. \<Sum>t<n. U i j * s j * V t j * x t)"
    by (rule sum.cong) (simp_all add: diag_sum sum_distrib_left mult.assoc)
  also have "\<dots> = (\<Sum>t<n. \<Sum>j<k. U i j * s j * V t j * x t)"
    by (rule sum.swap)
  also have "\<dots> = (\<Sum>t<n. (\<Sum>l<k. U i l * s l * V t l) * x t)"
    by (simp add: sum_distrib_right)
  finally show ?thesis .
qed

text \<open>
  C1. For a linear layer with weight \<open>W\<close> of shape \<open>(m, n)\<close> and a bias \<open>b\<close>, on
  which EVBMF returns a diagonal matrix of size \<open>k\<close> and \<open>svd\<close> returns \<open>U\<close> of
  shape \<open>(m, r)\<close>, \<open>S\<close> of length \<open>r\<close> and \<open>V\<close> of shape \<open>(n, r)\<close>,
  \<open>svd_decomposition_dense_layer\<close> returns a chain of exactly two linear layers, and
  the chain maps every input \<open>x\<close> of length \<open>n\<close> to \<open>(U\<^sub>k \<Sigma>\<^sub>k V\<^sub>k\<^sup>T) x + b\<close>.
\<close>

theorem svd_chain_computes_truncated_svd:
  assumes "wf w"
    and "store w (weight layer) = Some (Mat X)"
    and "bias layer = Some b" and "store w b = Some (Vec bv)" and "len bv = nrows X"
    and "EVBMF lib X = Inr (eu, ediag, ev, ep)"
    and "svd lib X = Inr (U, S, V)"
    and "nrows U = nrows X" and "ncols U = len S"
    and "nrows V = ncols X" and "ncols V = len S"
    and "len x = ncols X"
  shows "\<exists>V_layer U_layer w'.
     svd_decomposition_dense_layer lib layer w = Inr ([V_layer, U_layer], w') \<and>
     forward w' [V_layer, U_layer] x =
       Inr (affine (truncated_svd (nrows ediag) U S V) bv x)"
proof -
  from assms(1,4) have "b < next_sid w"
    by (auto simp: wf_def)
  with assms show ?thesis
    by (simp add: svd_decomposition_dense_layer_def estimate_ranks_svd_def Linear_def
        monad_defs linear_forward_def affine_def truncated_svd_def mm_def diag_def
        take_cols_def take_vec_def transpose_m_def chain_sum case_prod_beta)
qed

theorem svd_chain_computes_truncated_svd_witness:
  "\<exists>V_layer U_layer w'.
     svd_decomposition_dense_layer demo_lib dense_layer demo_world
       = Inr ([V_layer, U_layer], w') \<and>
     forward w' [V_layer, U_layer] \<lparr>len = 3, at1 = (\<lambda>i. 2)\<rparr> =
       Inr (affine (truncated_svd 1 (filled 1 2 2) \<lparr>len = 2, at1 = (\<lambda>i. 1)\<rparr> (filled 1 3 2))
              \<lparr>len = 2, at1 = (\<lambda>i. 5)\<rparr> \<lparr>len = 3, at1 = (\<lambda>i. 2)\<rparr>)"
  using svd_chain_computes_truncated_svd [OF wf_demo_world, of dense_layer
      "\<lparr>nrows = 2, ncols = 3, at2 = (\<lambda>i j. 1)\<rparr>" 1 "\<lparr>len = 2, at1 = (\<lambda>i. 5)\<rparr>" demo_lib
      "filled 1 2 1" "filled 1 1 1" "filled 1 3 1" "[]"
      "filled 1 2 2" "\<lparr>len = 2, at1 = (\<lambda>i. 1)\<rparr>" "filled 1 3 2"
      "\<lparr>len = 3, at1 = (\<lambda>i. 2)\<rparr>"]
  by (simp add: demo_defs)

subsection \<open>Failures of the libraries\<close>

text \<open>
  C8. When a library call fails, the function that made it fails with the same
  exception and returns no chain: \<open>parafac\<close> in \<open>cp_decomposition_conv_layer\<close>;
  \<open>EVBMF\<close> on either unfolding in \<open>estimate_ranks_tucker\<close> and so in
  \<open>tucker_decomposition_conv_layer\<close>, and \<open>partial_tucker\<close> in the latter;
  \<open>EVBMF\<close> in \<open>estimate_ranks_svd\<close> and so in
  \<open>svd_decomposition_dense_layer\<close>, and \<open>svd\<close> in the latter.
\<close>

theorem library_failures_propagate:
  assumes "store w (weight layer) = Some (Ten4 X)"
    and "store w (weight dense) = Some (Mat W)"
  shows
    "(fst (parafac lib X rank (if 256 \<le> max_shape X then Init_random else Init_svd)
            (entropy w)) = Inl e \<longrightarrow>
        cp_decomposition_conv_layer lib layer rank w = Inl e) \<and>
     (EVBMF lib (unfold lib (Ten4 X) 0) = Inl e \<longrightarrow>
        estimate_ranks_tucker lib layer w = Inl e \<and>
        tucker_decomposition_conv_layer lib layer w = Inl e) \<and>
     (EVBMF lib (unfold lib (Ten4 X) 0) = Inr ra \<and>
      EVBMF lib (unfold lib (Ten4 X) 1) = Inl e \<longrightarrow>
        estimate_ranks_tucker lib layer w = Inl e \<and>
        tucker_decomposition_conv_layer lib layer w = Inl e) \<and>
     (EVBMF lib (unfold lib (Ten4 X) 0) = Inr ra \<and>
      EVBMF lib (unfold lib (Ten4 X) 1) = Inr rb \<and>
      partial_tucker lib X [0, 1] [nrows (fst (snd ra)), ncols (fst (snd rb))] Init_svd
        = Inl e \<longrightarrow>
        tucker_decomposition_conv_layer lib layer w = Inl e) \<and>
     (EVBMF lib W = Inl e \<longrightarrow>
        estimate_ranks_svd lib dense w = Inl e \<and>
        svd_decomposition_dense_layer lib dense w = Inl e) \<and>
     (EVBMF lib W = Inr r \<and> svd lib W = Inl e \<longrightarrow>
        svd_decomposition_dense_layer lib dense w = Inl e)"
  using assms
  by (simp add: cp_decomposition_conv_layer_def tucker_decomposition_conv_layer_def
      svd_decomposition_dense_layer_def estimate_ranks_tucker_def estimate_ranks_svd_def
      monad_defs case_prod_beta)

theorem library_failures_propagate_witness:
  "cp_decomposition_conv_layer parafac_fails plain_layer 1 demo_world = Inl boom \<and>
   estimate_ranks_tucker EVBMF_fails plain_layer demo_world = Inl boom \<and>
   tucker_decomposition_conv_layer EVBMF_fails plain_layer demo_world = Inl boom \<and>
   estimate_ranks_tucker EVBMF_fails_on_mode_1 plain_layer demo_world = Inl boom \<and>
   tucker_decomposition_conv_layer EVBMF_fails_on_mode_1 plain_layer demo_world = Inl boom \<and>
   tucker_decomposition_conv_layer partial_tucker_fails plain_layer demo_world = Inl boom \<and>
   estimate_ranks_svd EVBMF_fails dense_layer demo_world = Inl boom \<and>
   svd_decomposition_dense_layer EVBMF_fails dense_layer demo_world = Inl boom \<and>
   svd_decomposition_dense_layer svd_fails dense_layer demo_world = Inl boom"
  using
    library_failures_propagate [where w = demo_world and layer = plain_layer
      and dense = dense_layer and X = "\<lparr>shape4 = (2, 3, 3, 3), at4 = (\<lambda>i j k l. 1)\<rparr>"
      and W = "\<lparr>nrows = 2, ncols = 3, at2 = (\<lambda>i j. 1)\<rparr>" and rank = 1 and e = boom
      and lib = parafac_fails]
    library_failures_propagate [where w = demo_world and layer = plain_layer
      and dense = dense_layer and X = "\<lparr>shape4 = (2, 3, 3, 3), at4 = (\<lambda>i j k l. 1)\<rparr>"
      and W = "\<lparr>nrows = 2, ncols = 3, at2 = (\<lambda>i j. 1)\<rparr>" and rank = 1 and e = boom
      and lib = EVBMF_fails]
    library_failures_propagate [where w = demo_world and layer = plain_layer
      and dense = dense_layer and X = "\<lparr>shape4 = (2, 3, 3, 3), at4 = (\<lambda>i j k l. 1)\<rparr>"
      and W = "\<lparr>nrows = 2, ncols = 3, at2 = (\<lambda>i j. 1)\<rparr>" and rank = 1 and e = boom
      and lib = EVBMF_fails_on_mode_1
      and ra = "(filled 1 2 1, filled 1 1 1, filled 1 27 1, [])"]
    library_failures_propagate [where w = demo_world and layer = plain_layer
      and dense = dense_layer and X = "\<lparr>shape4 = (2, 3, 3, 3), at4 = (\<lambda>i j k l. 1)\<rparr>"
      and W = "\<lparr>nrows = 2, ncols = 3, at2 = (\<lambda>i j. 1)\<rparr>" and rank = 1 and e = boom
      and lib = partial_tucker_fails
      and ra = "(filled 1 2 1, filled 1 1 1, filled 1 27 1, [])"
      and rb = "(filled 1 3 1, filled 1 1 1, filled 1 18 1, [])"]
    library_failures_propagate [where w = demo_world and layer = plain_layer
      and dense = dense_layer and X = "\<lparr>shape4 = (2, 3, 3, 3), at4 = (\<lambda>i j k l. 1)\<rparr>"
      and W = "\<lparr>nrows = 2, ncols = 3, at2 = (\<lambda>i j. 1)\<rparr>" and rank = 1 and e = boom
      and lib = svd_fails
      and r = "(filled 1 2 1, filled 1 1 1, filled 1 3 1, [])"]
  by (simp add: demo_defs boom_def parafac_fails_def EVBMF_fails_def
      EVBMF_fails_on_mode_1_def partial_tucker_fails_def svd_fails_def)

subsection \<open>The rank estimators\<close>

text \<open>
  C4, as amended. \<open>estimate_ranks_tucker\<close> unfolds the weight along modes 0 and 1,
  applies EVBMF to each unfolding and returns the number of rows of the first diagonal
  matrix and the number of columns of the second. \<open>estimate_ranks_svd\<close> does not
  unfold: it applies EVBMF once, to the weight matrix itself, and returns one number,
  the rows of that diagonal matrix; whatever \<open>unfold\<close> is makes no difference to it.
\<close>

theorem rank_estimators:
  "(store w (weight layer) = Some (Ten4 X) \<longrightarrow>
      estimate_ranks_tucker lib layer w =
        (case estimate_ranks_two_unfoldings lib (Ten4 X) of
           Inl e \<Rightarrow> Inl e | Inr ranks \<Rightarrow> Inr (ranks, w))) \<and>
   (store w (weight dense) = Some (Mat W) \<longrightarrow>
      estimate_ranks_svd lib dense w =
        (case EVBMF lib W of Inl e \<Rightarrow> Inl e | Inr (u, d, v, p) \<Rightarrow> Inr (nrows d, w))) \<and>
   estimate_ranks_svd (lib\<lparr>unfold := uf\<rparr>) dense w = estimate_ranks_svd lib dense w"
  by (simp add: estimate_ranks_tucker_def estimate_ranks_svd_def
      estimate_ranks_two_unfoldings_def monad_defs case_prod_beta
      split: sum.split)

theorem rank_estimators_witness:
  "estimate_ranks_tucker demo_lib plain_layer demo_world = Inr ([1, 1], demo_world) \<and>
   estimate_ranks_svd demo_lib dense_layer demo_world = Inr (1, demo_world)"
  using rank_estimators [of demo_world plain_layer
      "\<lparr>shape4 = (2, 3, 3, 3), at4 = (\<lambda>i j k l. 1)\<rparr>" demo_lib dense_layer
      "\<lparr>nrows = 2, ncols = 3, at2 = (\<lambda>i j. 1)\<rparr>" demo_unfold]
  by (simp add: demo_defs estimate_ranks_two_unfoldings_def)

text \<open>
  On the \<open>2 \<times> 3\<close> weight of the linear layer the two unfoldings give the ranks
  \<open>[1, 1]\<close>, and \<open>estimate_ranks_svd\<close> returns the single rank 1; with an EVBMF
  that raises on the mode-1 unfolding, estimating from the two unfoldings raises, and
  \<open>estimate_ranks_svd\<close> still returns 1.
\<close>

theorem estimate_ranks_svd_counterexample:
  "result (estimate_ranks_svd demo_lib dense_layer) demo_world = Inr 1 \<and>
   estimate_ranks_two_unfoldings demo_lib (Mat \<lparr>nrows = 2, ncols = 3, at2 = (\<lambda>i j. 1)\<rparr>)
     = Inr [1, 1] \<and>
   result (estimate_ranks_svd EVBMF_fails_on_mode_1 dense_layer) demo_world = Inr 1 \<and>
   estimate_ranks_two_unfoldings EVBMF_fails_on_mode_1
       (Mat \<lparr>nrows = 2, ncols = 3, at2 = (\<lambda>i j. 1)\<rparr>)
     = Inl boom"
  by (simp add: result_def estimate_ranks_svd_def estimate_ranks_two_unfoldings_def
      monad_defs demo_defs EVBMF_fails_on_mode_1_def boom_def transpose_m_def)

subsection \<open>The outcome as a function of the inputs\<close>

lemma valid_bias_lt: "wf w \<Longrightarrow> valid w l \<Longrightarrow> bias l = Some b \<Longrightarrow> b < next_sid w"
  by (auto simp: wf_def valid_def)

lemmas cp_exec = cp_decomposition_conv_layer_def cp_outcome_def observe_conv_def hyper_def
  exec_defs

lemmas tucker_exec = tucker_decomposition_conv_layer_def estimate_ranks_tucker_def
  estimate_ranks_two_unfoldings_def tucker_outcome_def observe_conv_def hyper_def exec_defs

lemmas svd_exec = svd_decomposition_dense_layer_def estimate_ranks_svd_def svd_outcome_def
  observe_linear_def exec_defs

lemma cp_outcome_eq:
  assumes "wf w" and "valid w layer"
  shows "observe_conv (cp_decomposition_conv_layer lib layer rank) w =
         cp_outcome lib layer rank (store w (weight layer)) (entropy w)
           (map_option (store w) (bias layer))"
proof (cases "store w (weight layer)")
  case None
  then show ?thesis
    by (simp add: cp_exec)
next
  case (Some t)
  show ?thesis
  proof (cases t)
    case (Vec v)
    with Some show ?thesis
      by (simp add: cp_exec)
  next
    case (Mat A)
    with Some show ?thesis
      by (simp add: cp_exec)
  next
    case (Ten4 X)
    note wt = Some [unfolded Ten4]
    show ?thesis
    proof (cases "fst (parafac lib X rank
                    (if 256 \<le> max_shape X then Init_random else Init_svd) (entropy w))")
      case (Inl e)
      with wt show ?thesis
        by (simp add: cp_exec)
    next
      case (Inr fs)
      show ?thesis
      proof (cases "bias layer")
        case None
        with wt Inr show ?thesis
          by (simp add: cp_exec split: list.split)
      next
        case (Some b)
        with assms have "b < next_sid w"
          by (auto dest: valid_bias_lt)
        with wt Inr Some show ?thesis
          by (simp add: cp_exec split: list.split)
      qed
    qed
  qed
qed

lemma estimate_ranks_tucker_eq:
  "result (estimate_ranks_tucker lib layer) w =
     (case store w (weight layer) of
        Some (Ten4 X) \<Rightarrow> estimate_ranks_two_unfoldings lib (Ten4 X)
      | _ \<Rightarrow> Inl TypeError)"
  by (simp add: result_def estimate_ranks_tucker_def estimate_ranks_two_unfoldings_def
      monad_defs case_prod_beta split: sum.split option.split tensor.split)

lemma estimate_ranks_svd_eq:
  "result (estimate_ranks_svd lib layer) w =
     (case store w (weight layer) of
        Some (Mat X) \<Rightarrow>
          (case EVBMF lib X of Inl e \<Rightarrow> Inl e | Inr (u, d, v, p) \<Rightarrow> Inr (nrows d))
      | _ \<Rightarrow> Inl TypeError)"
  by (simp add: result_def estimate_ranks_svd_def monad_defs case_prod_beta
      split: sum.split option.split tensor.split)

lemma tucker_outcome_eq:
  assumes "wf w" and "valid w layer"
  shows "observe_conv (tucker_decomposition_conv_layer lib layer) w =
         tucker_outcome lib layer (store w (weight layer)) (map_option (store w) (bias layer))"
proof (cases "store w (weight layer)")
  case None
  then show ?thesis
    by (simp add: tucker_exec)
next
  case (Some t)
  show ?thesis
  proof (cases t)
    case (Vec v)
    with Some show ?thesis
      by (simp add: tucker_exec)
  next
    case (Mat A)
    with Some show ?thesis
      by (simp add: tucker_exec)
  next
    case (Ten4 X)
    note wt = Some [unfolded Ten4]
    show ?thesis
    proof (cases "EVBMF lib (unfold lib (Ten4 X) 0)")
      case (Inl e)
      with wt show ?thesis
        by (simp add: tucker_exec)
    next
      case (Inr r0)
      note r0 = this
      show ?thesis
      proof (cases "EVBMF lib (unfold lib (Ten4 X) 1)")
        case (Inl e)
        with wt r0 show ?thesis
          by (simp add: tucker_exec)
      next
        case (Inr r1)
        note r1 = this
        show ?thesis
        proof (cases "partial_tucker lib X [0, 1]
                        [nrows (fst (snd r0)), ncols (fst (snd r1))] Init_svd")
          case (Inl e)
          with wt r0 r1 show ?thesis
            by (simp add: tucker_exec)
        next
          case (Inr cf)
          show ?thesis
          proof (cases "bias layer")
            case None
            with wt r0 r1 Inr show ?thesis
              by (simp add: tucker_exec split: list.split)
          next
            case (Some b)
            with assms have "b < next_sid w"
              by (auto dest: valid_bias_lt)
            with wt r0 r1 Inr Some show ?thesis
              by (simp add: tucker_exec split: list.split)
          qed
        qed
      qed
    qed
  qed
qed

lemma svd_outcome_eq:
  assumes "wf w" and "valid w layer"
  shows "observe_linear (svd_decomposition_dense_layer lib layer) w =
         svd_outcome lib (store w (weight layer)) (map_option (store w) (bias layer))"
proof (cases "store w (weight layer)")
  case None
  then show ?thesis
    by (simp add: svd_exec)
next
  case (Some t)
  show ?thesis
  proof (cases t)
    case (Vec v)
    with Some show ?thesis
      by (simp add: svd_exec)
  next
    case (Ten4 A)
    with Some show ?thesis
      by (simp add: svd_exec)
  next
    case (Mat X)
    note wt = Some [unfolded Mat]
    show ?thesis
    proof (cases "EVBMF lib X")
      case (Inl e)
      with wt show ?thesis
        by (simp add: svd_exec)
    next
      case (Inr ev)
      note ev = this
      show ?thesis
      proof (cases "svd lib X")
        case (Inl e)
        with wt ev show ?thesis
          by (simp add: svd_exec)
      next
        case (Inr usv)
        note usv = this
        show ?thesis
        proof (cases "mm (take_cols (nrows (fst (snd ev))) (fst usv))
                        (diag (take_vec (nrows (fst (snd ev))) (fst (snd usv))))")
          case (Inl e)
          with wt ev usv show ?thesis
            by (simp add: svd_exec)
        next
          case (Inr US)
          show ?thesis
          proof (cases "bias layer")
            case None
            with wt ev usv Inr show ?thesis
              by (simp add: svd_exec)
          next
            case (Some b)
            with assms have "b < next_sid w"
              by (auto dest: valid_bias_lt)
            with wt ev usv Inr Some show ?thesis
              by (simp add: svd_exec)
          qed
        qed
      qed
    qed
  qed
qed

lemma tucker_outcome_cong:
  assumes "estimate_ranks_two_unfoldings lib1 (Ten4 X) =
           estimate_ranks_two_unfoldings lib2 (Ten4 X)"
    and "\<forall>ranks. estimate_ranks_two_unfoldings lib1 (Ten4 X) = Inr ranks \<longrightarrow>
           partial_tucker lib1 X [0, 1] ranks Init_svd =
           partial_tucker lib2 X [0, 1] ranks Init_svd"
  shows "tucker_outcome lib1 layer (Some (Ten4 X)) bc =
         tucker_outcome lib2 layer (Some (Ten4 X)) bc"
proof (cases "estimate_ranks_two_unfoldings lib1 (Ten4 X)")
  case (Inl e)
  with assms(1) have "estimate_ranks_two_unfoldings lib2 (Ten4 X) = Inl e"
    by simp
  with Inl show ?thesis
    by (simp add: tucker_outcome_def)
next
  case (Inr ranks)
  with assms have "estimate_ranks_two_unfoldings lib2 (Ten4 X) = Inr ranks"
    and "partial_tucker lib1 X [0, 1] ranks Init_svd =
         partial_tucker lib2 X [0, 1] ranks Init_svd"
    by simp_all
  with Inr show ?thesis
    by (simp add: tucker_outcome_def)
qed

text \<open>
  C5, as amended. Each function is stateless: its output depends on nothing but its
  inputs and the results of the library calls it makes. For every pair of calls on equal
  inputs (a layer whose weight and bias hold equal contents in the two worlds) in which
  those library calls return equal results, the two calls produce equal outputs,
  whatever else the two worlds hold: EVBMF on the two unfoldings for
  \<open>estimate_ranks_tucker\<close>, and \<open>partial_tucker\<close> at the estimated ranks besides
  for \<open>tucker_decomposition_conv_layer\<close>; EVBMF on the weight for
  \<open>estimate_ranks_svd\<close>, and \<open>svd\<close> besides for
  \<open>svd_decomposition_dense_layer\<close>; \<open>parafac\<close> for
  \<open>cp_decomposition_conv_layer\<close>. The functions are not deterministic, because the
  libraries are not.
\<close>

theorem equal_library_results_give_equal_outputs:
  assumes "wf w1" and "wf w2"
    and "valid w1 layer" and "valid w2 layer" and "agree w1 w2 layer"
    and "valid w1 dense" and "valid w2 dense" and "agree w1 w2 dense"
    and "store w1 (weight layer) = Some (Ten4 X)"
    and "store w1 (weight dense) = Some (Mat W)"
  shows
    "(EVBMF lib1 (unfold lib1 (Ten4 X) 0) = EVBMF lib2 (unfold lib2 (Ten4 X) 0) \<and>
      EVBMF lib1 (unfold lib1 (Ten4 X) 1) = EVBMF lib2 (unfold lib2 (Ten4 X) 1) \<longrightarrow>
        result (estimate_ranks_tucker lib1 layer) w1 =
          result (estimate_ranks_tucker lib2 layer) w2) \<and>
     (EVBMF lib1 (unfold lib1 (Ten4 X) 0) = EVBMF lib2 (unfold lib2 (Ten4 X) 0) \<and>
      EVBMF lib1 (unfold lib1 (Ten4 X) 1) = EVBMF lib2 (unfold lib2 (Ten4 X) 1) \<and>
      (\<forall>ranks. estimate_ranks_two_unfoldings lib1 (Ten4 X) = Inr ranks \<longrightarrow>
         partial_tucker lib1 X [0, 1] ranks Init_svd =
         partial_tucker lib2 X [0, 1] ranks Init_svd) \<longrightarrow>
        observe_conv (tucker_decomposition_conv_layer lib1 layer) w1 =
          observe_conv (tucker_decomposition_conv_layer lib2 layer) w2) \<and>
     (EVBMF lib1 W = EVBMF lib2 W \<longrightarrow>
        result (estimate_ranks_svd lib1 dense) w1 =
          result (estimate_ranks_svd lib2 dense) w2) \<and>
     (EVBMF lib1 W = EVBMF lib2 W \<and> svd lib1 W = svd lib2 W \<longrightarrow>
        observe_linear (svd_decomposition_dense_layer lib1 dense) w1 =
          observe_linear (svd_decomposition_dense_layer lib2 dense) w2) \<and>
     (fst (parafac lib1 X rank (if 256 \<le> max_shape X then Init_random else Init_svd)
            (entropy w1)) =
      fst (parafac lib2 X rank (if 256 \<le> max_shape X then Init_random else Init_svd)
            (entropy w2)) \<longrightarrow>
        observe_conv (cp_decomposition_conv_layer lib1 layer rank) w1 =
          observe_conv (cp_decomposition_conv_layer lib2 layer rank) w2)"
proof -
  from assms have conv: "store w2 (weight layer) = Some (Ten4 X)"
    "map_option (store w2) (bias layer) = map_option (store w1) (bias layer)"
    and lin: "store w2 (weight dense) = Some (Mat W)"
    "map_option (store w2) (bias dense) = map_option (store w1) (bias dense)"
    by (simp_all add: agree_def)
  have ranks: "estimate_ranks_two_unfoldings lib1 (Ten4 X) =
               estimate_ranks_two_unfoldings lib2 (Ten4 X)"
    if "EVBMF lib1 (unfold lib1 (Ten4 X) 0) = EVBMF lib2 (unfold lib2 (Ten4 X) 0)"
      and "EVBMF lib1 (unfold lib1 (Ten4 X) 1) = EVBMF lib2 (unfold lib2 (Ten4 X) 1)"
    unfolding estimate_ranks_two_unfoldings_def that by (rule refl)
  show ?thesis
  proof (intro conjI impI; (elim conjE)?)
    assume "EVBMF lib1 (unfold lib1 (Ten4 X) 0) = EVBMF lib2 (unfold lib2 (Ten4 X) 0)"
      and "EVBMF lib1 (unfold lib1 (Ten4 X) 1) = EVBMF lib2 (unfold lib2 (Ten4 X) 1)"
    then show "result (estimate_ranks_tucker lib1 layer) w1 =
          result (estimate_ranks_tucker lib2 layer) w2"
      using assms(9) conv(1) by (simp add: estimate_ranks_tucker_eq ranks)
  next
    assume "EVBMF lib1 (unfold lib1 (Ten4 X) 0) = EVBMF lib2 (unfold lib2 (Ten4 X) 0)"
      and "EVBMF lib1 (unfold lib1 (Ten4 X) 1) = EVBMF lib2 (unfold lib2 (Ten4 X) 1)"
      and "\<forall>ranks. estimate_ranks_two_unfoldings lib1 (Ten4 X) = Inr ranks \<longrightarrow>
         partial_tucker lib1 X [0, 1] ranks Init_svd =
         partial_tucker lib2 X [0, 1] ranks Init_svd"
    then have "tucker_outcome lib1 layer (Some (Ten4 X)) (map_option (store w1) (bias layer)) =
        tucker_outcome lib2 layer (Some (Ten4 X)) (map_option (store w1) (bias layer))"
      by (intro tucker_outcome_cong ranks)
    with assms(1-4,9) conv
    show "observe_conv (tucker_decomposition_conv_layer lib1 layer) w1 =
          observe_conv (tucker_decomposition_conv_layer lib2 layer) w2"
      by (simp add: tucker_outcome_eq)
  next
    assume "EVBMF lib1 W = EVBMF lib2 W"
    then show "result (estimate_ranks_svd lib1 dense) w1 =
          result (estimate_ranks_svd lib2 dense) w2"
      using assms(10) lin(1) by (simp add: estimate_ranks_svd_eq)
  next
    assume same: "EVBMF lib1 W = EVBMF lib2 W" "svd lib1 W = svd lib2 W"
    have "svd_outcome lib1 (Some (Mat W)) (map_option (store w1) (bias dense)) =
        svd_outcome lib2 (Some (Mat W)) (map_option (store w1) (bias dense))"
      unfolding svd_outcome_def option.case tensor.case same by (rule refl)
    with assms(1,2,6,7,10) lin
    show "observe_linear (svd_decomposition_dense_layer lib1 dense) w1 =
          observe_linear (svd_decomposition_dense_layer lib2 dense) w2"
      by (simp add: svd_outcome_eq)
  next
    assume "fst (parafac lib1 X rank (if 256 \<le> max_shape X then Init_random else Init_svd)
            (entropy w1)) =
      fst (parafac lib2 X rank (if 256 \<le> max_shape X then Init_random else Init_svd)
            (entropy w2))"
    then have "cp_outcome lib1 layer rank (Some (Ten4 X)) (entropy w1)
          (map_option (store w1) (bias layer)) =
        cp_outcome lib2 layer rank (Some (Ten4 X)) (entropy w2)
          (map_option (store w1) (bias layer))"
      by (simp add: cp_outcome_def)
    with assms(1-4,9) conv
    show "observe_conv (cp_decomposition_conv_layer lib1 layer rank) w1 =
          observe_conv (cp_decomposition_conv_layer lib2 layer rank) w2"
      by (simp add: cp_outcome_eq)
  qed
qed

text \<open>A second call: a world with other generator states, another allocation pointer
  and one more storage, and a library that initialises new parameters differently.\<close>

theorem equal_library_results_give_equal_outputs_witness:
  "result (estimate_ranks_tucker demo_lib plain_layer) demo_world =
     result (estimate_ranks_tucker other_init plain_layer)
       (demo_world\<lparr>store := (store demo_world)(6 \<mapsto> Vec \<lparr>len = 0, at1 = (\<lambda>i. 0)\<rparr>),
                    next_sid := 9, entropy := 7, torch_rng := 3\<rparr>) \<and>
   observe_conv (tucker_decomposition_conv_layer demo_lib plain_layer) demo_world =
     observe_conv (tucker_decomposition_conv_layer other_init plain_layer)
       (demo_world\<lparr>store := (store demo_world)(6 \<mapsto> Vec \<lparr>len = 0, at1 = (\<lambda>i. 0)\<rparr>),
                    next_sid := 9, entropy := 7, torch_rng := 3\<rparr>) \<and>
   result (estimate_ranks_svd demo_lib dense_layer) demo_world =
     result (estimate_ranks_svd other_init dense_layer)
       (demo_world\<lparr>store := (store demo_world)(6 \<mapsto> Vec \<lparr>len = 0, at1 = (\<lambda>i. 0)\<rparr>),
                    next_sid := 9, entropy := 7, torch_rng := 3\<rparr>) \<and>
   observe_linear (svd_decomposition_dense_layer demo_lib dense_layer) demo_world =
     observe_linear (svd_decomposition_dense_layer other_init dense_layer)
       (demo_world\<lparr>store := (store demo_world)(6 \<mapsto> Vec \<lparr>len = 0, at1 = (\<lambda>i. 0)\<rparr>),
                    next_sid := 9, entropy := 7, torch_rng := 3\<rparr>) \<and>
   observe_conv (cp_decomposition_conv_layer demo_lib plain_layer 1) demo_world =
     observe_conv (cp_decomposition_conv_layer other_init plain_layer 1)
       (demo_world\<lparr>store := (store demo_world)(6 \<mapsto> Vec \<lparr>len = 0, at1 = (\<lambda>i. 0)\<rparr>),
                    next_sid := 9, entropy := 7, torch_rng := 3\<rparr>)"
proof -
  let ?w2 = "demo_world\<lparr>store := (store demo_world)(6 \<mapsto> Vec \<lparr>len = 0, at1 = (\<lambda>i. 0)\<rparr>),
                        next_sid := 9, entropy := 7, torch_rng := 3\<rparr>"
  let ?X = "\<lparr>shape4 = (2, 3, 3, 3), at4 = (\<lambda>i j k l. 1)\<rparr>"
  let ?W = "\<lparr>nrows = 2, ncols = 3, at2 = (\<lambda>i j. 1)\<rparr>"
  have w2: "wf ?w2" "valid ?w2 plain_layer" "valid ?w2 dense_layer"
    "agree demo_world ?w2 plain_layer" "agree demo_world ?w2 dense_layer"
    by (simp_all add: wf_def valid_def agree_def demo_defs)
  have wt: "store demo_world (weight plain_layer) = Some (Ten4 ?X)"
    "store demo_world (weight dense_layer) = Some (Mat ?W)"
    by (simp_all add: demo_defs)
  have same: "EVBMF demo_lib (unfold demo_lib (Ten4 ?X) 0) =
      EVBMF other_init (unfold other_init (Ten4 ?X) 0)"
    "EVBMF demo_lib (unfold demo_lib (Ten4 ?X) 1) =
      EVBMF other_init (unfold other_init (Ten4 ?X) 1)"
    "\<forall>ranks. estimate_ranks_two_unfoldings demo_lib (Ten4 ?X) = Inr ranks \<longrightarrow>
       partial_tucker demo_lib ?X [0, 1] ranks Init_svd =
       partial_tucker other_init ?X [0, 1] ranks Init_svd"
    "EVBMF demo_lib ?W = EVBMF other_init ?W" "svd demo_lib ?W = svd other_init ?W"
    "fst (parafac demo_lib ?X 1 (if 256 \<le> max_shape ?X then Init_random else Init_svd)
           (entropy demo_world)) =
     fst (parafac other_init ?X 1 (if 256 \<le> max_shape ?X then Init_random else Init_svd)
           (entropy ?w2))"
    by (simp_all add: demo_defs other_init_def)
  from equal_library_results_give_equal_outputs [OF wf_demo_world w2(1) valid_demo(1)
      w2(2) w2(4) valid_demo(2) w2(3) w2(5) wt, of demo_lib other_init 1] same
  show ?thesis by blast
qed

text \<open>
  On equal inputs two calls return chains with different weights when
  \<open>partial_tucker\<close> returns its factors with the opposite sign in the second call,
  and, on the layer with 256 output channels, when the random initialisation of
  \<open>parafac\<close> starts from another state of its source of randomness.
\<close>

theorem equal_inputs_different_chains_counterexample:
  "observe_conv (tucker_decomposition_conv_layer demo_lib plain_layer) demo_world \<noteq>
   observe_conv (tucker_decomposition_conv_layer sign_flipped plain_layer) demo_world \<and>
   observe_conv (cp_decomposition_conv_layer demo_lib big_layer 1) demo_world \<noteq>
   observe_conv (cp_decomposition_conv_layer demo_lib big_layer 1)
     (demo_world\<lparr>entropy := 1\<rparr>)"
  by (simp add: cp_decomposition_conv_layer_def tucker_decomposition_conv_layer_def
      estimate_ranks_tucker_def observe_conv_def hyper_def exec_defs demo_defs
      sign_flipped_def big_layer_def transpose_m_def expand_dims_last_last_def
      expand_dims_1_1_def expand_dims_1_last_def fun_eq_iff)

end
